theory Spec2Isabelle
  imports Main
begin

section \<open>Order tracker: reconciliation service and query engine\<close>

text \<open>
  The development embeds two source files: \<^verbatim>\<open>src/services/csvService.ts\<close>
  (class \<^verbatim>\<open>CSVService\<close>) and the pure helper functions of \<^verbatim>\<open>src/App.tsx\<close>
  (\<^verbatim>\<open>formatDate\<close>, \<^verbatim>\<open>filterTrackings\<close>, \<^verbatim>\<open>sortTrackings\<close>, \<^verbatim>\<open>handleSort\<close>).

  Modelling conventions.
  \<^item> A JavaScript string is a \<^typ>\<open>string\<close>, one \<^typ>\<open>char\<close> for each UTF-16 code
    unit. A \<^typ>\<open>char\<close> has eight bits, so the model covers the texts all of whose code
    units are below 256 (the Latin-1 range); on these, \<^verbatim>\<open>toLowerCase\<close> and
    \<^verbatim>\<open>trim\<close> are modelled in full.
  \<^item> A parsed CSV row and a tracking record are JavaScript objects whose values are
    strings (PapaParse with \<^verbatim>\<open>header: true\<close> and no dynamic typing): an association
    list from key to string. Reading a property is \<open>obj_get\<close>, writing one is
    \<open>obj_set\<close> (overwrite in place, else append), \<^verbatim>\<open>Object.keys\<close> is \<open>obj_keys\<close>.
  \<^item> A JavaScript number that can be \<^verbatim>\<open>NaN\<close> is an \<^typ>\<open>int option\<close>, \<open>None\<close>
    being \<^verbatim>\<open>NaN\<close>; time values are integral milliseconds.
  \<^item> What the host supplies (the clock, the time zone, general date parsing, locale
    collation and locale formatting of an instant, the HTTP resources and the CSV
    parser) is a parameter of the model.
\<close>

subsection \<open>Strings\<close>

text \<open>The code of a character; \<^verbatim>\<open>A-Z\<close> is 65 to 90, \<^verbatim>\<open>a-z\<close> is 97 to 122, \<^verbatim>\<open>0-9\<close> is 48 to 57.\<close>

definition char_code :: "char \<Rightarrow> nat" where
  "char_code c = of_char c"

definition is_upper :: "char \<Rightarrow> bool" where
  "is_upper c = (65 \<le> char_code c \<and> char_code c \<le> 90)"

definition is_lower :: "char \<Rightarrow> bool" where
  "is_lower c = (97 \<le> char_code c \<and> char_code c \<le> 122)"

definition is_digit :: "char \<Rightarrow> bool" where
  "is_digit c = (48 \<le> char_code c \<and> char_code c \<le> 57)"

text \<open>The class \<^verbatim>\<open>\w\<close> of a regular expression: letters, digits and the underscore.\<close>

definition is_word :: "char \<Rightarrow> bool" where
  "is_word c = (is_upper c \<or> is_lower c \<or> is_digit c \<or> c = CHR ''_'')"

text \<open>
  The code units below 256 that \<^verbatim>\<open>String.prototype.trim\<close> strips: the white space
  TAB, VT, FF, space and no-break space (U+00A0) and the line terminators LF and CR.
\<close>

definition is_space :: "char \<Rightarrow> bool" where
  "is_space c = (c = CHR '' '' \<or> c = CHR 0x09 \<or> c = CHR 0x0A \<or> c = CHR 0x0B
                 \<or> c = CHR 0x0C \<or> c = CHR 0x0D \<or> c = CHR 0xA0)"

text \<open>
  The code units below 256 that \<^verbatim>\<open>String.prototype.toLowerCase\<close> changes: \<^verbatim>\<open>A-Z\<close>
  and the Latin-1 capitals U+00C0 to U+00DE without the multiplication sign U+00D7.
  Each moves up by 32.
\<close>

definition has_lower_case :: "char \<Rightarrow> bool" where
  "has_lower_case c =
     (is_upper c \<or> (192 \<le> char_code c \<and> char_code c \<le> 214)
      \<or> (216 \<le> char_code c \<and> char_code c \<le> 222))"

definition lower_char :: "char \<Rightarrow> char" where
  "lower_char c = (if has_lower_case c then char_of (char_code c + 32) else c)"

definition toLowerCase :: "string \<Rightarrow> string" where
  "toLowerCase s = map lower_char s"

definition trim :: "string \<Rightarrow> string" where
  "trim s = rev (dropWhile is_space (rev (dropWhile is_space s)))"

text \<open>\<^verbatim>\<open>hay.includes(needle)\<close>: the needle occurs as a contiguous substring.\<close>

fun starts_with :: "string \<Rightarrow> string \<Rightarrow> bool" where
  "starts_with hay [] = True"
| "starts_with [] (n # ns) = False"
| "starts_with (h # hs) (n # ns) = (h = n \<and> starts_with hs ns)"

fun str_includes :: "string \<Rightarrow> string \<Rightarrow> bool" where
  "str_includes [] needle = (needle = [])"
| "str_includes (h # hs) needle = (starts_with (h # hs) needle \<or> str_includes hs needle)"

text \<open>\<^verbatim>\<open>s.split(/[-,]/)\<close>: cut at every hyphen and comma, keeping empty pieces.\<close>

fun split_on :: "(char \<Rightarrow> bool) \<Rightarrow> string \<Rightarrow> string list" where
  "split_on sep [] = [[]]"
| "split_on sep (c # cs) =
     (if sep c then [] # split_on sep cs
      else (case split_on sep cs of [] \<Rightarrow> [[c]] | p # ps \<Rightarrow> (c # p) # ps))"

text \<open>Decimal rendering of an array index, as a template literal prints it.\<close>

definition digit_char :: "nat \<Rightarrow> char" where
  "digit_char d = char_of (48 + d)"

function show_nat :: "nat \<Rightarrow> string" where
  "show_nat n = (if n < 10 then [digit_char n] else show_nat (n div 10) @ [digit_char (n mod 10)])"
  by pat_completeness auto
termination
  by (relation "measure (\<lambda>n. n)") auto

declare show_nat.simps [simp del]

text \<open>\<^verbatim>\<open>Number(ds)\<close> on a string of decimal digits.\<close>

definition digit_val :: "char \<Rightarrow> nat" where
  "digit_val c = char_code c - 48"

definition number_of_digits :: "string \<Rightarrow> nat" where
  "number_of_digits ds = foldl (\<lambda>acc c. 10 * acc + digit_val c) 0 ds"

subsection \<open>Objects\<close>

type_synonym obj = "(string \<times> string) list"

definition obj_get :: "obj \<Rightarrow> string \<Rightarrow> string option" where
  "obj_get ob k = map_of ob k"

definition hasOwnProperty :: "obj \<Rightarrow> string \<Rightarrow> bool" where
  "hasOwnProperty ob k = (obj_get ob k \<noteq> None)"

definition obj_keys :: "obj \<Rightarrow> string list" where
  "obj_keys ob = remdups (map fst ob)"

primrec obj_set :: "string \<Rightarrow> string \<Rightarrow> obj \<Rightarrow> obj" where
  "obj_set k v [] = [(k, v)]"
| "obj_set k v (p # ps) = (if fst p = k then (k, v) # ps else p # obj_set k v ps)"

text \<open>
  The idiom \<^verbatim>\<open>row.k || ''\<close>: an absent property and an empty string both give the
  empty string. \<open>or_else\<close> is \<^verbatim>\<open>a || b\<close> on strings (the empty string is falsy).
\<close>

definition fld :: "obj \<Rightarrow> string \<Rightarrow> string" where
  "fld ob k = (case obj_get ob k of None \<Rightarrow> [] | Some v \<Rightarrow> v)"

definition or_else :: "string \<Rightarrow> string \<Rightarrow> string" where
  "or_else a b = (if a \<noteq> [] then a else b)"

subsection \<open>The sort state of the table (App.tsx)\<close>

datatype SortColumn =
  Col_tracking_number | Col_order_id | Col_po_number | Col_from_company
  | Col_recipient_name | Col_carrier | Col_status | Col_ship_date | Col_estimated_delivery

datatype SortDirection = Asc | Desc

record sort_state =
  sortColumn :: "SortColumn option"
  sortDirection :: "SortDirection option"

text \<open>
  \<^verbatim>\<open>handleSort\<close> reads the two state variables of the current render and issues
  the setter calls; the state after the call is returned.
\<close>

definition handleSort :: "SortColumn \<Rightarrow> sort_state \<Rightarrow> sort_state" where
  "handleSort column st =
     (if sortColumn st = Some column then
        (if sortDirection st = Some Asc then st\<lparr>sortDirection := Some Desc\<rparr>
         else if sortDirection st = Some Desc then st\<lparr>sortColumn := None, sortDirection := None\<rparr>
         else st\<lparr>sortDirection := Some Asc\<rparr>)
      else st\<lparr>sortColumn := Some column, sortDirection := Some Asc\<rparr>)"

definition unsorted :: sort_state where
  "unsorted = \<lparr>sortColumn = None, sortDirection = None\<rparr>"

subsection \<open>Calendar arithmetic of the Date object\<close>

definition msPerDay :: int where
  "msPerDay = 86400000"

text \<open>
  Day number (days since 1970-01-01) of a proleptic Gregorian date, month in 1..12,
  and its inverse; integer division is floor division, as in the ECMAScript
  definitions of \<^verbatim>\<open>MakeDay\<close>.
\<close>

definition days_from_civil :: "int \<Rightarrow> int \<Rightarrow> int \<Rightarrow> int" where
  "days_from_civil y m d =
     (let y' = (if m \<le> 2 then y - 1 else y);
          era = y' div 400;
          yoe = y' - era * 400;
          doy = (153 * (if m > 2 then m - 3 else m + 9) + 2) div 5 + d - 1;
          doe = yoe * 365 + yoe div 4 - yoe div 100 + doy
      in era * 146097 + doe - 719468)"

definition civil_from_days :: "int \<Rightarrow> int \<times> int \<times> int" where
  "civil_from_days z =
     (let z' = z + 719468;
          era = z' div 146097;
          doe = z' - era * 146097;
          yoe = (doe - doe div 1460 + doe div 36524 - doe div 146096) div 365;
          doy = doe - (365 * yoe + yoe div 4 - yoe div 100);
          mp = (5 * doy + 2) div 153;
          d = doy - (153 * mp + 2) div 5 + 1;
          m = (if mp < 10 then mp + 3 else mp - 9);
          y = yoe + era * 400
      in (if m \<le> 2 then y + 1 else y, m, d))"

text \<open>
  \<^verbatim>\<open>MakeDay(year, month, date)\<close> with a zero-based month that may lie outside
  0..11 and a day of the month that may lie outside the month: both overflow into the
  neighbouring months and years.
\<close>

definition MakeDay :: "int \<Rightarrow> int \<Rightarrow> int \<Rightarrow> int" where
  "MakeDay year month date =
     days_from_civil (year + month div 12) (month mod 12 + 1) 1 + date - 1"

text \<open>
  \<^verbatim>\<open>new Date(year, month, day)\<close>: the local time value of local midnight of that
  day. A year from 0 to 99 means 1900 + year.
\<close>

definition date_local :: "int \<Rightarrow> int \<Rightarrow> int \<Rightarrow> int" where
  "date_local year month day =
     MakeDay (if 0 \<le> year \<and> year \<le> 99 then 1900 + year else year) month day * msPerDay"

text \<open>\<^verbatim>\<open>setHours(0, 0, 0, 0)\<close> on a local time value: back to local midnight.\<close>

definition setHours0 :: "int \<Rightarrow> int" where
  "setHours0 t = t - t mod msPerDay"

text \<open>
  The match of \<^verbatim>\<open>/^(\d{4})-(\d{2})-(\d{2})$/\<close>, with the three groups already
  passed through \<^verbatim>\<open>Number\<close>.
\<close>

definition dateOnlyMatch :: "string \<Rightarrow> (nat \<times> nat \<times> nat) option" where
  "dateOnlyMatch s =
     (if length s = 10 \<and> list_all is_digit (take 4 s) \<and> s ! 4 = CHR ''-''
         \<and> list_all is_digit (take 2 (drop 5 s)) \<and> s ! 7 = CHR ''-''
         \<and> list_all is_digit (drop 8 s)
      then Some (number_of_digits (take 4 s), number_of_digits (take 2 (drop 5 s)),
                 number_of_digits (drop 8 s))
      else None)"

subsection \<open>The host\<close>

record response =
  ok :: bool
  statusText :: string
  body :: string

datatype fetch_outcome = Rejected string | Resolved response

text \<open>
  \<^item> \<open>clock_now\<close>: the time value of \<^verbatim>\<open>new Date()\<close>;
  \<^item> \<open>local_time\<close>: \<^verbatim>\<open>LocalTime(t)\<close>, from a time value to the local time value;
  \<^item> \<open>date_parse\<close>: the time value of \<^verbatim>\<open>new Date(s)\<close>, \<open>None\<close> for an invalid date;
  \<^item> \<open>locale_compare\<close>: \<^verbatim>\<open>a.localeCompare(b)\<close>;
  \<^item> \<open>to_locale_string\<close>: \<^verbatim>\<open>toLocaleString('en-US', ...)\<close> of a time value;
  \<^item> \<open>fetch\<close>: the outcome of the request for a path (an error message when the
    request itself is rejected);
  \<^item> \<open>papa_parse\<close>: the rows PapaParse delivers for a text, headers normalised, or
    the message of the error it rejects with.

  Dates are compared as local time values. The source compares the time values of two
  local midnights; the conversion from local time to a time value preserves the order
  of local midnights and keeps distinct ones distinct.
\<close>

record platform =
  clock_now :: int
  local_time :: "int \<Rightarrow> int"
  date_parse :: "string \<Rightarrow> int option"
  locale_compare :: "string \<Rightarrow> string \<Rightarrow> int"
  to_locale_string :: "int \<Rightarrow> string"
  fetch :: "string \<Rightarrow> fetch_outcome"
  papa_parse :: "string \<Rightarrow> string + obj list"

subsection \<open>Derived fields (csvService.ts)\<close>

definition determineStatus :: "platform \<Rightarrow> string \<Rightarrow> string" where
  "determineStatus pf estimatedDelivery =
     (let today = setHours0 (local_time pf (clock_now pf)) in
      if estimatedDelivery = [] then ''in_transit''
      else
        let trimmed = trim estimatedDelivery;
            estDate = (case dateOnlyMatch trimmed of
                         Some (year, month, day) \<Rightarrow>
                           Some (date_local (int year) (int month - 1) (int day))
                       | None \<Rightarrow> map_option (local_time pf) (date_parse pf trimmed))
        in (case map_option setHours0 estDate of
              None \<Rightarrow> ''in_transit''
            | Some est \<Rightarrow>
                if est < today then ''delivered''
                else if est = today then ''out_for_delivery''
                else ''in_transit''))"

record destination =
  city :: "string option"
  state :: "string option"

definition no_destination :: destination where
  "no_destination = \<lparr>city = None, state = None\<rparr>"

text \<open>
  The first match of \<^verbatim>\<open>/\b([A-Z]{2})\b/\<close>, scanning from the left with the
  character before the current position; a word boundary lies between a word character
  and a non-word character or an end of the text.
\<close>

definition word_at :: "char option \<Rightarrow> bool" where
  "word_at c = (case c of None \<Rightarrow> False | Some x \<Rightarrow> is_word x)"

definition boundary :: "char option \<Rightarrow> char option \<Rightarrow> bool" where
  "boundary p q = (word_at p \<noteq> word_at q)"

fun statePattern :: "char option \<Rightarrow> string \<Rightarrow> string option" where
  "statePattern prev (a # b # rest) =
     (if boundary prev (Some a) \<and> is_upper a \<and> is_upper b
         \<and> boundary (Some b) (case rest of [] \<Rightarrow> None | c # _ \<Rightarrow> Some c)
      then Some [a, b]
      else statePattern (Some a) (b # rest))"
| "statePattern prev rest = None"

text \<open>\<^verbatim>\<open>p.match(/^[A-Z]{2}$/)\<close>.\<close>

definition is_state_token :: "string \<Rightarrow> bool" where
  "is_state_token p = (length p = 2 \<and> list_all is_upper p)"

definition parseDestination :: "string \<Rightarrow> destination" where
  "parseDestination recipientName =
     (if recipientName = [] then no_destination
      else
        let parts = map trim (split_on (\<lambda>c. c = CHR ''-'' \<or> c = CHR '','') recipientName);
            stateMatch = statePattern None recipientName
        in (case stateMatch of
              Some st \<Rightarrow>
                if length parts \<ge> 2 then
                  \<lparr>city = Some (case find (\<lambda>p. \<not> is_state_token p \<and> length p > 0) parts of
                                  Some p \<Rightarrow> p | None \<Rightarrow> []),
                   state = Some st\<rparr>
                else no_destination
            | None \<Rightarrow> no_destination))"

subsection \<open>Reconciliation (csvService.ts, loadTrackings)\<close>

text \<open>
  The lookup \<^verbatim>\<open>additionalDataMap\<close>: each supplemental row with a usable key is
  stored under that key in lower case, a later row replacing an earlier one.
\<close>

definition additional_key :: "obj \<Rightarrow> string" where
  "additional_key row =
     or_else (fld row ''order_number'')
       (or_else (fld row ''order_id'')
          (or_else (fld row ''tracking_number'') (or_else (fld row ''po_number'') [])))"

definition additionalDataMap :: "obj list \<Rightarrow> (string \<rightharpoonup> obj)" where
  "additionalDataMap additionalData =
     foldl (\<lambda>m row. let key = additional_key row in
                       if key \<noteq> [] then m(toLowerCase key \<mapsto> row) else m)
           Map.empty additionalData"

text \<open>
  The supplemental match of a primary row. A stored row is an object and so truthy:
  \<^verbatim>\<open>get(k) || ...\<close> falls through exactly when the key is absent.
\<close>

definition additionalInfo :: "obj list \<Rightarrow> obj \<Rightarrow> nat \<Rightarrow> obj" where
  "additionalInfo additionalData row index =
     (let m = additionalDataMap additionalData;
          trackingNumber = fld row ''tracking_number'';
          orderId = fld row ''order_number''
      in case m (toLowerCase orderId) of
           Some r \<Rightarrow> r
         | None \<Rightarrow>
             (case m (toLowerCase trackingNumber) of
                Some r \<Rightarrow> r
              | None \<Rightarrow>
                  (case m (toLowerCase (fld row ''po_number'')) of
                     Some r \<Rightarrow> r
                   | None \<Rightarrow>
                       (if index < length additionalData then additionalData ! index else []))))"

definition baseTracking :: "platform \<Rightarrow> obj \<Rightarrow> nat \<Rightarrow> obj" where
  "baseTracking pf row index =
     (let trackingNumber = fld row ''tracking_number'';
          estimatedDelivery = fld row ''estimated_delivery'';
          shipDate = or_else (fld row ''ship_date'') (fld row ''email_date'');
          orderId = fld row ''order_number'';
          tag = determineStatus pf estimatedDelivery;
          recipientName = or_else (fld row ''recipient_site_name'') (fld row ''recipient'');
          destinationParts = parseDestination recipientName
      in [(''id'', or_else orderId (or_else (fld row ''po_number'') (''tracking-'' @ show_nat index))),
          (''tracking_number'', trackingNumber),
          (''slug'', toLowerCase (fld row ''carrier'')),
          (''tag'', tag),
          (''title'', or_else (fld row ''subject'')
                        (trim (fld row ''from_company'' @ '' Order '' @ orderId))),
          (''order_id'', orderId),
          (''po_number'', fld row ''po_number''),
          (''destination_city'', (case city destinationParts of None \<Rightarrow> [] | Some c \<Rightarrow> c)),
          (''destination_state'', (case state destinationParts of None \<Rightarrow> [] | Some c \<Rightarrow> c)),
          (''last_updated_at'', or_else shipDate (fld row ''email_date'')),
          (''estimated_delivery'', estimatedDelivery),
          (''checkpoint_message'', or_else (fld row ''body_preview'') (fld row ''subject'')),
          (''checkpoint_location'', recipientName),
          (''checkpoint_date'',
             or_else estimatedDelivery (or_else shipDate (fld row ''email_date''))),
          (''recipient_name'', recipientName),
          (''from_company'', fld row ''from_company'')])"

text \<open>
  The loop over \<^verbatim>\<open>Object.keys(additionalInfo)\<close>: a key is copied when the record
  has no such property yet and the supplemental value is truthy.
\<close>

definition add_field :: "obj \<Rightarrow> string \<Rightarrow> obj \<Rightarrow> obj" where
  "add_field info key bt =
     (if \<not> hasOwnProperty bt key \<and> fld info key \<noteq> [] then obj_set key (fld info key) bt
      else bt)"

definition merge_additional :: "obj \<Rightarrow> obj \<Rightarrow> obj" where
  "merge_additional info bt = fold (add_field info) (obj_keys info) bt"

definition build_tracking :: "platform \<Rightarrow> obj list \<Rightarrow> nat \<times> obj \<Rightarrow> obj" where
  "build_tracking pf additionalData ir =
     (case ir of (index, row) \<Rightarrow>
        merge_additional (additionalInfo additionalData row index) (baseTracking pf row index))"

text \<open>
  The filter after the map: \<^verbatim>\<open>tracking.tracking_number && tracking.tracking_number.trim() !== ''\<close>.
\<close>

definition has_tracking_number :: "obj \<Rightarrow> bool" where
  "has_tracking_number tracking =
     (case obj_get tracking ''tracking_number'' of
        None \<Rightarrow> False
      | Some t \<Rightarrow> t \<noteq> [] \<and> trim t \<noteq> [])"

definition trackings :: "platform \<Rightarrow> obj list \<Rightarrow> obj list \<Rightarrow> obj list" where
  "trackings pf ordersData additionalData =
     filter has_tracking_number
       (map (build_tracking pf additionalData) (enumerate 0 ordersData))"

subsection \<open>Loading (csvService.ts, loadCSVFile and loadTrackings)\<close>

definition csvPath :: string where
  "csvPath = ''/TestCSVFile.csv''"

definition additionalCsvPath :: string where
  "additionalCsvPath = ''/AdditionalOrderInfo.csv''"

text \<open>A thrown \<^verbatim>\<open>Error\<close> is its message, on the left of the sum.\<close>

definition loadCSVFile :: "platform \<Rightarrow> string \<Rightarrow> string + obj list" where
  "loadCSVFile pf path =
     (case fetch pf path of
        Rejected msg \<Rightarrow> Inl msg
      | Resolved resp \<Rightarrow>
          if \<not> ok resp then
            (if path = additionalCsvPath then Inr []
             else Inl (''Failed to load CSV: '' @ statusText resp))
          else papa_parse pf (body resp))"

definition loadTrackings :: "platform \<Rightarrow> string + obj list" where
  "loadTrackings pf =
     (case loadCSVFile pf csvPath of
        Inl msg \<Rightarrow> Inl (''Failed to load CSV file: '' @ msg)
      | Inr ordersData \<Rightarrow>
          (let additionalData = (case loadCSVFile pf additionalCsvPath of
                                   Inl _ \<Rightarrow> []
                                 | Inr rows \<Rightarrow> rows)
           in Inr (trackings pf ordersData additionalData)))"

subsection \<open>Query engine (App.tsx)\<close>

definition month_short :: "int \<Rightarrow> string" where
  "month_short m =
     (if m = 1 then ''Jan'' else if m = 2 then ''Feb'' else if m = 3 then ''Mar''
      else if m = 4 then ''Apr'' else if m = 5 then ''May'' else if m = 6 then ''Jun''
      else if m = 7 then ''Jul'' else if m = 8 then ''Aug'' else if m = 9 then ''Sep''
      else if m = 10 then ''Oct'' else if m = 11 then ''Nov'' else ''Dec'')"

text \<open>
  \<^verbatim>\<open>toLocaleDateString('en-US', {year: 'numeric', month: 'short', day: 'numeric'})\<close>
  of the local midnight of a day, as in \<^verbatim>\<open>Nov 13, 2025\<close>.
\<close>

definition toLocaleDateString :: "int \<Rightarrow> string" where
  "toLocaleDateString t =
     (case civil_from_days (t div msPerDay) of
        (y, m, d) \<Rightarrow> month_short m @ '' '' @ show_nat (nat d) @ '', '' @ show_nat (nat y))"

text \<open>The argument is \<open>None\<close> when the property is undefined.\<close>

definition formatDate :: "platform \<Rightarrow> string option \<Rightarrow> string" where
  "formatDate pf dateString =
     (case dateString of
        None \<Rightarrow> ''N/A''
      | Some ds \<Rightarrow>
          if ds = [] then ''N/A''
          else
            let trimmed = trim ds in
            if trimmed = [] then ''N/A''
            else (case dateOnlyMatch trimmed of
                    Some (year, month, day) \<Rightarrow>
                      toLocaleDateString (date_local (int year) (int month - 1) (int day))
                  | None \<Rightarrow>
                      (case date_parse pf trimmed of
                         None \<Rightarrow> ds
                       | Some t \<Rightarrow> to_locale_string pf t)))"

definition named_fields :: "string list" where
  "named_fields =
     [''id'', ''tracking_number'', ''order_id'', ''po_number'', ''from_company'',
      ''recipient_name'', ''destination_city'', ''destination_state'', ''slug'',
      ''tag'', ''title'', ''checkpoint_message'', ''checkpoint_location'',
      ''last_updated_at'', ''estimated_delivery'', ''checkpoint_date'']"

text \<open>
  The values a record is searched in. An undefined property is dropped by
  \<^verbatim>\<open>filter(Boolean)\<close> like an empty string, so the standard fields are read with
  \<open>fld\<close>; the three dates go through \<open>formatDate\<close>.
\<close>

definition allFieldValues :: "platform \<Rightarrow> obj \<Rightarrow> string list" where
  "allFieldValues pf tracking =
     [fld tracking ''tracking_number'', fld tracking ''order_id'', fld tracking ''po_number'',
      fld tracking ''from_company'', fld tracking ''recipient_name'',
      fld tracking ''destination_city'', fld tracking ''destination_state'',
      fld tracking ''slug'', fld tracking ''tag'', fld tracking ''title'',
      fld tracking ''checkpoint_message'', fld tracking ''checkpoint_location'',
      formatDate pf (obj_get tracking ''last_updated_at''),
      formatDate pf (obj_get tracking ''estimated_delivery''),
      formatDate pf (obj_get tracking ''checkpoint_date'')]
     @ concat (map (\<lambda>key. if key \<noteq> ''id'' \<and> key \<notin> set named_fields
                               then (if fld tracking key \<noteq> [] then [fld tracking key] else [])
                               else [])
                   (obj_keys tracking))"

definition searchableFields :: "platform \<Rightarrow> obj \<Rightarrow> string list" where
  "searchableFields pf tracking =
     map toLowerCase (filter (\<lambda>field. field \<noteq> []) (allFieldValues pf tracking))"

definition filterTrackings :: "platform \<Rightarrow> obj list \<Rightarrow> string \<Rightarrow> string list \<Rightarrow> obj list" where
  "filterTrackings pf trks search statuses =
     (let filtered = (if length statuses > 0
                      then filter (\<lambda>tracking. (case obj_get tracking ''tag'' of
                                                  None \<Rightarrow> False
                                                | Some t \<Rightarrow> t \<in> set statuses)) trks
                      else trks)
      in if trim search \<noteq> [] then
           (let searchLower = trim (toLowerCase search)
            in filter (\<lambda>tracking.
                         list_ex (\<lambda>field. str_includes field searchLower)
                                 (searchableFields pf tracking))
                      filtered)
         else filtered)"

text \<open>
  Sorting. The value a record is sorted by is a string or a number; a number is
  \<open>None\<close> when it is \<^verbatim>\<open>NaN\<close>.
\<close>

datatype sort_val = SStr string | SNum "int option"

definition date_value :: "platform \<Rightarrow> string \<Rightarrow> int option" where
  "date_value pf v = (if v \<noteq> [] then date_parse pf v else Some 0)"

definition sort_value :: "platform \<Rightarrow> SortColumn \<Rightarrow> obj \<Rightarrow> sort_val" where
  "sort_value pf column a =
     (case column of
        Col_tracking_number \<Rightarrow> SStr (fld a ''tracking_number'')
      | Col_order_id \<Rightarrow> SStr (fld a ''order_id'')
      | Col_po_number \<Rightarrow> SStr (fld a ''po_number'')
      | Col_from_company \<Rightarrow> SStr (fld a ''from_company'')
      | Col_recipient_name \<Rightarrow> SStr (fld a ''recipient_name'')
      | Col_carrier \<Rightarrow> SStr (fld a ''slug'')
      | Col_status \<Rightarrow> SStr (fld a ''tag'')
      | Col_ship_date \<Rightarrow> SNum (date_value pf (fld a ''last_updated_at''))
      | Col_estimated_delivery \<Rightarrow> SNum (date_value pf (fld a ''estimated_delivery'')))"

text \<open>Subtraction of two numbers: \<^verbatim>\<open>NaN\<close> as soon as one of them is.\<close>

definition js_minus :: "int option \<Rightarrow> int option \<Rightarrow> int option" where
  "js_minus x y = (case (x, y) of (Some a, Some b) \<Rightarrow> Some (a - b) | _ \<Rightarrow> None)"

text \<open>
  The comparison function handed to \<^verbatim>\<open>sort\<close>. Both values come from the same
  column, so they are two strings or two numbers.
\<close>

definition compareTrackings ::
  "platform \<Rightarrow> SortColumn \<Rightarrow> SortDirection \<Rightarrow> obj \<Rightarrow> obj \<Rightarrow> int option" where
  "compareTrackings pf column direction a b =
     (case (sort_value pf column a, sort_value pf column b) of
        (SStr aValue, SStr bValue) \<Rightarrow>
          Some (if direction = Asc then locale_compare pf aValue bValue
                else locale_compare pf bValue aValue)
      | (SNum aValue, SNum bValue) \<Rightarrow>
          (if direction = Asc then js_minus aValue bValue else js_minus bValue aValue)
      | _ \<Rightarrow> None)"

text \<open>
  \<^verbatim>\<open>Array.prototype.sort\<close> is a stable sort that reads a \<^verbatim>\<open>NaN\<close> result of the
  comparison function as 0. For a comparison function that is a consistent ordering
  the result is the one stable sorted arrangement, whatever the algorithm. For an
  inconsistent one (as with \<^verbatim>\<open>NaN\<close> results among three or more records) ECMAScript
  leaves the order to the engine; the model fixes one algorithm, a stable insertion
  sort, and is the engine's result only where all stable sorts agree.
\<close>

definition comparator_result :: "int option \<Rightarrow> int" where
  "comparator_result v = (case v of None \<Rightarrow> 0 | Some n \<Rightarrow> n)"

fun insert_by :: "('a \<Rightarrow> 'a \<Rightarrow> int option) \<Rightarrow> 'a \<Rightarrow> 'a list \<Rightarrow> 'a list" where
  "insert_by cmp x [] = [x]"
| "insert_by cmp x (y # ys) =
     (if comparator_result (cmp x y) \<le> 0 then x # y # ys else y # insert_by cmp x ys)"

definition array_sort :: "('a \<Rightarrow> 'a \<Rightarrow> int option) \<Rightarrow> 'a list \<Rightarrow> 'a list" where
  "array_sort cmp xs = foldr (insert_by cmp) xs []"

definition sortTrackings ::
  "platform \<Rightarrow> obj list \<Rightarrow> SortColumn option \<Rightarrow> SortDirection option \<Rightarrow> obj list" where
  "sortTrackings pf trks column direction =
     (case (column, direction) of
        (Some c, Some d) \<Rightarrow> array_sort (compareTrackings pf c d) trks
      | _ \<Rightarrow> trks)"

subsection \<open>Reference notions used in the properties\<close>

text \<open>
  The status rule in the words of the specification: the estimated day against today,
  both as day numbers.
\<close>

definition status_by_day :: "int \<Rightarrow> int \<Rightarrow> string" where
  "status_by_day est today =
     (if est < today then ''delivered''
      else if est = today then ''out_for_delivery''
      else ''in_transit'')"

text \<open>The local calendar day of the clock, as a day number.\<close>

definition today_day :: "platform \<Rightarrow> int" where
  "today_day pf = local_time pf (clock_now pf) div msPerDay"

text \<open>
  The day number denoted by \<^verbatim>\<open>new Date(y, m - 1, d)\<close> for the three numbers of a bare
  date.
\<close>

definition date_day :: "nat \<Rightarrow> nat \<Rightarrow> nat \<Rightarrow> int" where
  "date_day y m d = MakeDay (if y \<le> 99 then 1900 + int y else int y) (int m - 1) (int d)"

subsection \<open>A concrete host\<close>

text \<open>
  A host used to run the model on concrete inputs: the clock reads 2 November 2026,
  12:00 UTC, local time is five hours behind UTC, the date parser accepts one ISO
  instant, collation compares character codes, the primary resource exists and the
  supplemental one does not.
\<close>

fun compare_codes :: "string \<Rightarrow> string \<Rightarrow> int" where
  "compare_codes [] [] = 0"
| "compare_codes [] (b # bs) = - 1"
| "compare_codes (a # as) [] = 1"
| "compare_codes (a # as) (b # bs) =
     (if char_code a < char_code b then - 1
      else if char_code b < char_code a then 1
      else compare_codes as bs)"

definition example_rows :: "obj list" where
  "example_rows = [[(''tracking_number'', ''1Z999''), (''order_number'', ''SO-7'')]]"

definition example_platform :: platform where
  "example_platform =
     \<lparr>clock_now = 1793620800000,
      local_time = (\<lambda>t. t - 18000000),
      date_parse = (\<lambda>s. if s = ''2025-01-01T00:00:00Z'' then Some 1735689600000 else None),
      locale_compare = compare_codes,
      to_locale_string = (\<lambda>t. ''Jan 1, 2025, 12:00 AM''),
      fetch = (\<lambda>p. if p = csvPath
                     then Resolved \<lparr>ok = True, statusText = ''OK'', body = ''orders''\<rparr>
                     else Resolved \<lparr>ok = False, statusText = ''Not Found'', body = []\<rparr>),
      papa_parse = (\<lambda>text. if text = ''orders'' then Inr example_rows else Inr [])\<rparr>"

definition example_orders :: "obj list" where
  "example_orders =
     [[(''tracking_number'', ''1Z999''), (''order_number'', ''so-7'')],
      [(''tracking_number'', ''1Z999'')],
      [(''tracking_number'', ''T-3''), (''po_number'', ''po-3'')],
      [(''tracking_number'', ''T-4'')],
      [(''tracking_number'', ''T-5'')]]"

definition example_additional :: "obj list" where
  "example_additional =
     [[(''tracking_number'', ''1z999''), (''notes'', ''by tracking'')],
      [(''po_number'', ''PO-3''), (''notes'', ''by po'')],
      [(''order_number'', ''SO-7''), (''title'', ''Other title''), (''notes'', ''by order'')],
      [(''notes'', ''no key''), (''tag'', ''pending'')]]"

text \<open>Three hosts with failing requests.\<close>

definition primary_missing :: platform where
  "primary_missing =
     example_platform\<lparr>fetch :=
       (\<lambda>p. Resolved \<lparr>ok = False, statusText = ''Not Found'', body = []\<rparr>)\<rparr>"

definition network_down :: platform where
  "network_down = example_platform\<lparr>fetch := (\<lambda>p. Rejected ''Failed to fetch'')\<rparr>"

definition supplemental_unreachable :: platform where
  "supplemental_unreachable =
     example_platform\<lparr>fetch :=
       (\<lambda>p. if p = additionalCsvPath then Rejected ''Failed to fetch''
            else fetch example_platform p)\<rparr>"

definition example_shipments :: "obj list" where
  "example_shipments =
     [[(''tracking_number'', ''T-1''), (''ship_date'', ''2025-01-01T00:00:00Z'')],
      [(''tracking_number'', ''T-2''), (''ship_date'', ''not-a-date'')]]"

definition example_shipment_records :: "obj list" where
  "example_shipment_records = trackings example_platform example_shipments []"

definition example_dated :: "obj list" where
  "example_dated =
     [[(''tracking_number'', ''T-8''), (''ship_date'', ''2025-11-13''),
       (''estimated_delivery'', ''2025-11-13'')]]"

definition example_dated_record :: obj where
  "example_dated_record =
     [(''id'', ''tracking-0''), (''tracking_number'', ''T-8''), (''slug'', []),
      (''tag'', ''delivered''), (''title'', ''Order''), (''order_id'', []),
      (''po_number'', []), (''destination_city'', []), (''destination_state'', []),
      (''last_updated_at'', ''2025-11-13''), (''estimated_delivery'', ''2025-11-13''),
      (''checkpoint_message'', []), (''checkpoint_location'', []),
      (''checkpoint_date'', ''2025-11-13''), (''recipient_name'', []),
      (''from_company'', [])]"

text \<open>
  Primary rows whose tracking numbers are good, blank, padded, absent, made of a
  no-break space and a tab, and empty; and a host that delivers them.
\<close>

definition example_blanks :: "obj list" where
  "example_blanks =
     [[(''tracking_number'', ''1Z999'')],
      [(''tracking_number'', ''   '')],
      [(''tracking_number'', '' T-2 '')],
      [(''order_number'', ''SO-9'')],
      [(''tracking_number'', [CHR 0xA0, CHR 0x09])],
      [(''tracking_number'', [])]]"

definition blanks_host :: platform where
  "blanks_host = example_platform\<lparr>papa_parse := (\<lambda>text. Inr example_blanks)\<rparr>"

section \<open>Properties\<close>

subsection \<open>The tri-state sort cycle\<close>

text \<open>
  Claim C9. Starting from the unset sort state, one invocation of \<open>handleSort\<close> on a
  column selects that column ascending, a second one on the same column makes it
  descending, and a third one returns to the unset state, in which \<open>sortTrackings\<close>
  leaves the records in their original order. From any state whose column is a
  different one (or none), an invocation selects the new column ascending.
\<close>

theorem handleSort_tri_state_cycle:
  "handleSort c unsorted = \<lparr>sortColumn = Some c, sortDirection = Some Asc\<rparr>
   \<and> handleSort c (handleSort c unsorted) = \<lparr>sortColumn = Some c, sortDirection = Some Desc\<rparr>
   \<and> handleSort c (handleSort c (handleSort c unsorted)) = unsorted
   \<and> sortTrackings pf trks
        (sortColumn (handleSort c (handleSort c (handleSort c unsorted))))
        (sortDirection (handleSort c (handleSort c (handleSort c unsorted)))) = trks
   \<and> (sortColumn st \<noteq> Some c \<longrightarrow>
        handleSort c st = \<lparr>sortColumn = Some c, sortDirection = Some Asc\<rparr>)"
  by (simp add: handleSort_def unsorted_def sortTrackings_def)

theorem handleSort_tri_state_cycle_witness:
  "sortColumn \<lparr>sortColumn = Some Col_carrier, sortDirection = Some Desc\<rparr> \<noteq> Some Col_status
   \<and> handleSort Col_status \<lparr>sortColumn = Some Col_carrier, sortDirection = Some Desc\<rparr>
       = \<lparr>sortColumn = Some Col_status, sortDirection = Some Asc\<rparr>"
  using handleSort_tri_state_cycle
          [of Col_status _ _ "\<lparr>sortColumn = Some Col_carrier, sortDirection = Some Desc\<rparr>"]
  by simp

subsection \<open>Status inference\<close>

text \<open>The day numbers at the epoch and around the end of February.\<close>

lemma calendar_examples:
  "days_from_civil 1970 1 1 = 0"
  "civil_from_days 0 = (1970, 1, 1)"
  "civil_from_days (days_from_civil 2024 2 29) = (2024, 2, 29)"
  "civil_from_days (days_from_civil 2024 2 29 + 1) = (2024, 3, 1)"
  "civil_from_days (days_from_civil 2100 2 28 + 1) = (2100, 3, 1)"
  by code_simp+

lemma msPerDay_nonzero: "msPerDay \<noteq> 0"
  by (simp add: msPerDay_def)

lemma setHours0_day: "setHours0 t = (t div msPerDay) * msPerDay"
  by (simp add: setHours0_def minus_mod_eq_div_mult)

lemma setHours0_midnight: "setHours0 (n * msPerDay) = n * msPerDay"
  by (simp add: setHours0_def)

lemma midnight_less: "n * msPerDay < k * msPerDay \<longleftrightarrow> n < k"
  by (simp add: msPerDay_def)

lemma midnight_eq: "n * msPerDay = k * msPerDay \<longleftrightarrow> n = k"
  by (simp add: msPerDay_def)

lemma date_local_day: "date_local (int y) (int m - 1) (int d) = date_day y m d * msPerDay"
  by (simp add: date_local_def date_day_def)

lemma dateOnlyMatch_components:
  assumes "length y = 4" "length m = 2" "length d = 2"
    and "list_all is_digit y" "list_all is_digit m" "list_all is_digit d"
  shows "dateOnlyMatch (y @ ''-'' @ m @ ''-'' @ d)
           = Some (number_of_digits y, number_of_digits m, number_of_digits d)"
  using assms by (simp add: dateOnlyMatch_def nth_append)

lemma determineStatus_date_only:
  assumes "estimatedDelivery \<noteq> []"
    and "dateOnlyMatch (trim estimatedDelivery) = Some (y, m, d)"
  shows "determineStatus pf estimatedDelivery = status_by_day (date_day y m d) (today_day pf)"
  using assms
  by (simp add: determineStatus_def Let_def date_local_day setHours0_midnight setHours0_day
      midnight_less midnight_eq status_by_day_def today_day_def msPerDay_nonzero)

lemma determineStatus_unparseable:
  assumes "dateOnlyMatch (trim s) = None" "date_parse pf (trim s) = None"
  shows "determineStatus pf s = ''in_transit''"
  using assms by (simp add: determineStatus_def Let_def)

lemma determineStatus_range:
  "determineStatus pf s = ''delivered'' \<or> determineStatus pf s = ''out_for_delivery''
   \<or> determineStatus pf s = ''in_transit''"
  by (simp add: determineStatus_def Let_def split: option.splits prod.splits)

lemma date_day_valid:
  "1 \<le> m \<Longrightarrow> m \<le> 12 \<Longrightarrow> 100 \<le> y \<Longrightarrow> date_day y m d = days_from_civil (int y) (int m) (int d)"
  by (simp add: date_day_def MakeDay_def days_from_civil_def Let_def)

lemma trim_Nil: "trim [] = []"
  by (simp add: trim_def)

text \<open>
  Claim C4. \<open>determineStatus\<close> answers \<^verbatim>\<open>in_transit\<close> for the empty text and for a
  text that is neither a bare date nor accepted by the date parser. A text that trims to
  a bare \<^verbatim>\<open>YYYY-MM-DD\<close> date is decided from its three numbers alone, without the date
  parser or the time zone: the day they denote is compared with the local day of the
  clock, giving \<^verbatim>\<open>delivered\<close> before today, \<^verbatim>\<open>out_for_delivery\<close> today and
  \<^verbatim>\<open>in_transit\<close> after today; for a year from 100 on and a month from 1 to 12 that
  day is the day number of the written date itself. So \<^verbatim>\<open>2000-01-01\<close> is delivered once the clock is
  past that day, \<^verbatim>\<open>2099-01-01\<close> is in transit while the clock is before that day, and
  \<^verbatim>\<open>not-a-date\<close>, which the date parser rejects, is in transit.
\<close>

theorem determineStatus_calendar_day:
  "determineStatus pf [] = ''in_transit''
   \<and> (dateOnlyMatch (trim s) = None \<and> date_parse pf (trim s) = None
        \<longrightarrow> determineStatus pf s = ''in_transit'')
   \<and> (length y = 4 \<and> length m = 2 \<and> length d = 2
        \<and> list_all is_digit y \<and> list_all is_digit m \<and> list_all is_digit d
        \<and> trim t = y @ ''-'' @ m @ ''-'' @ d
        \<longrightarrow> determineStatus pf t
              = status_by_day
                  (date_day (number_of_digits y) (number_of_digits m) (number_of_digits d))
                  (today_day pf))
   \<and> (100 \<le> yy \<and> 1 \<le> mm \<and> mm \<le> 12
        \<longrightarrow> date_day yy mm dd = days_from_civil (int yy) (int mm) (int dd))
   \<and> (days_from_civil 2000 1 1 < today_day pf
        \<longrightarrow> determineStatus pf ''2000-01-01'' = ''delivered'')
   \<and> (today_day pf < days_from_civil 2099 1 1
        \<longrightarrow> determineStatus pf ''2099-01-01'' = ''in_transit'')
   \<and> (date_parse pf ''not-a-date'' = None
        \<longrightarrow> determineStatus pf ''not-a-date'' = ''in_transit'')"
proof (intro conjI impI)
  show "determineStatus pf [] = ''in_transit''"
    by (simp add: determineStatus_def)
next
  assume "dateOnlyMatch (trim s) = None \<and> date_parse pf (trim s) = None"
  then show "determineStatus pf s = ''in_transit''"
    by (simp add: determineStatus_unparseable)
next
  assume h: "length y = 4 \<and> length m = 2 \<and> length d = 2
        \<and> list_all is_digit y \<and> list_all is_digit m \<and> list_all is_digit d
        \<and> trim t = y @ ''-'' @ m @ ''-'' @ d"
  then have ne: "t \<noteq> []"
    using trim_Nil by fastforce
  from h have "dateOnlyMatch (trim t)
      = Some (number_of_digits y, number_of_digits m, number_of_digits d)"
    using dateOnlyMatch_components [of y m d] by simp
  with ne show "determineStatus pf t
              = status_by_day
                  (date_day (number_of_digits y) (number_of_digits m) (number_of_digits d))
                  (today_day pf)"
    by (rule determineStatus_date_only)
next
  assume "100 \<le> yy \<and> 1 \<le> mm \<and> mm \<le> 12"
  then show "date_day yy mm dd = days_from_civil (int yy) (int mm) (int dd)"
    by (simp add: date_day_valid)
next
  assume past: "days_from_civil 2000 1 1 < today_day pf"
  have t: "trim ''2000-01-01'' = ''2000-01-01''" by code_simp
  have mt: "dateOnlyMatch ''2000-01-01'' = Some (2000, 1, 1)" by code_simp
  have dd: "date_day 2000 1 1 = days_from_civil 2000 1 1" by code_simp
  have "determineStatus pf ''2000-01-01'' = status_by_day (date_day 2000 1 1) (today_day pf)"
    by (rule determineStatus_date_only) (simp_all only: t mt, simp)
  with past dd show "determineStatus pf ''2000-01-01'' = ''delivered''"
    by (simp add: status_by_day_def)
next
  assume future: "today_day pf < days_from_civil 2099 1 1"
  have t: "trim ''2099-01-01'' = ''2099-01-01''" by code_simp
  have mt: "dateOnlyMatch ''2099-01-01'' = Some (2099, 1, 1)" by code_simp
  have dd: "date_day 2099 1 1 = days_from_civil 2099 1 1" by code_simp
  have "determineStatus pf ''2099-01-01'' = status_by_day (date_day 2099 1 1) (today_day pf)"
    by (rule determineStatus_date_only) (simp_all only: t mt, simp)
  with future dd show "determineStatus pf ''2099-01-01'' = ''in_transit''"
    by (simp add: status_by_day_def)
next
  assume np: "date_parse pf ''not-a-date'' = None"
  have t: "trim ''not-a-date'' = ''not-a-date''" by code_simp
  have mt: "dateOnlyMatch ''not-a-date'' = None" by code_simp
  show "determineStatus pf ''not-a-date'' = ''in_transit''"
    by (rule determineStatus_unparseable) (simp_all only: t mt np)
qed

theorem determineStatus_calendar_day_witness:
  "(dateOnlyMatch (trim ''next week'') = None
      \<and> date_parse example_platform (trim ''next week'') = None)
   \<and> determineStatus example_platform ''next week'' = ''in_transit''
   \<and> (length ''2026'' = 4 \<and> length ''11'' = 2 \<and> length ''02'' = 2
        \<and> list_all is_digit ''2026'' \<and> list_all is_digit ''11'' \<and> list_all is_digit ''02''
        \<and> trim '' 2026-11-02 '' = ''2026'' @ ''-'' @ ''11'' @ ''-'' @ ''02'')
   \<and> determineStatus example_platform '' 2026-11-02 '' = ''out_for_delivery''
   \<and> ((100::nat) \<le> 2026 \<and> (1::nat) \<le> 11 \<and> (11::nat) \<le> 12)
   \<and> date_day 2026 11 2 = days_from_civil 2026 11 2
   \<and> days_from_civil 2000 1 1 < today_day example_platform
   \<and> determineStatus example_platform ''2000-01-01'' = ''delivered''
   \<and> today_day example_platform < days_from_civil 2099 1 1
   \<and> determineStatus example_platform ''2099-01-01'' = ''in_transit''
   \<and> date_parse example_platform ''not-a-date'' = None
   \<and> determineStatus example_platform ''not-a-date'' = ''in_transit''"
proof -
  have h1: "dateOnlyMatch (trim ''next week'') = None
      \<and> date_parse example_platform (trim ''next week'') = None"
    by code_simp
  have h2: "length ''2026'' = 4 \<and> length ''11'' = 2 \<and> length ''02'' = 2
        \<and> list_all is_digit ''2026'' \<and> list_all is_digit ''11'' \<and> list_all is_digit ''02''
        \<and> trim '' 2026-11-02 '' = ''2026'' @ ''-'' @ ''11'' @ ''-'' @ ''02''"
    by code_simp
  have e2: "status_by_day
              (date_day (number_of_digits ''2026'') (number_of_digits ''11'')
                 (number_of_digits ''02''))
              (today_day example_platform) = ''out_for_delivery''"
    by code_simp
  have h3: "(100::nat) \<le> 2026 \<and> (1::nat) \<le> 11 \<and> (11::nat) \<le> 12"
    by simp
  have h4: "days_from_civil 2000 1 1 < today_day example_platform"
    by code_simp
  have h5: "today_day example_platform < days_from_civil 2099 1 1"
    by code_simp
  have h6: "date_parse example_platform ''not-a-date'' = None"
    by code_simp
  note inst = determineStatus_calendar_day
      [of example_platform "''next week''" "''2026''" "''11''" "''02''" "'' 2026-11-02 ''"
          2026 11 2]
  from inst h1 h2 e2 h3 h4 h5 h6 show ?thesis
    by (simp only: simp_thms of_nat_numeral)
qed

subsection \<open>Objects and the merge of supplemental fields\<close>

lemma obj_get_obj_set:
  "obj_get (obj_set k v ob) k' = (if k' = k then Some v else obj_get ob k')"
  by (induction ob) (auto simp: obj_get_def)

lemma obj_get_add_field:
  "obj_get (add_field info key bt) k =
     (if k = key \<and> obj_get bt k = None \<and> fld info key \<noteq> [] then Some (fld info key)
      else obj_get bt k)"
  by (auto simp add: add_field_def hasOwnProperty_def obj_get_obj_set)

lemma obj_get_fold_add_field:
  "obj_get (fold (add_field info) ks bt) k =
     (case obj_get bt k of
        Some v \<Rightarrow> Some v
      | None \<Rightarrow> if k \<in> set ks \<and> fld info k \<noteq> [] then Some (fld info k) else None)"
proof (induction ks arbitrary: bt)
  case Nil
  show ?case by (simp split: option.splits)
next
  case (Cons key ks)
  show ?case
    by (auto simp add: Cons.IH obj_get_add_field split: option.splits)
qed

lemma fld_nonempty_key: "fld info k \<noteq> [] \<Longrightarrow> k \<in> set (obj_keys info)"
  by (auto simp: fld_def obj_keys_def obj_get_def split: option.splits dest: map_of_SomeD
           intro: rev_image_eqI)

lemma obj_get_merge_additional:
  "obj_get (merge_additional info bt) k =
     (case obj_get bt k of
        Some v \<Rightarrow> Some v
      | None \<Rightarrow> if fld info k \<noteq> [] then Some (fld info k) else None)"
  using fld_nonempty_key [of info k]
  by (auto simp add: merge_additional_def obj_get_fold_add_field split: option.splits)

lemma base_tag: "obj_get (baseTracking pf row i) ''tag'' = Some (determineStatus pf (fld row ''estimated_delivery''))"
  by (simp add: baseTracking_def obj_get_def Let_def)

lemma base_tracking_number: "obj_get (baseTracking pf row i) ''tracking_number'' = Some (fld row ''tracking_number'')"
  by (simp add: baseTracking_def obj_get_def Let_def)

lemma in_trackings:
  "r \<in> set (trackings pf ordersData additionalData) \<longleftrightarrow>
     has_tracking_number r \<and>
     (\<exists>i < length ordersData. r = build_tracking pf additionalData (i, ordersData ! i))"
  by (auto simp: trackings_def in_set_enumerate_eq image_iff)

lemma loadTrackings_Inr:
  assumes "loadTrackings pf = Inr rs"
  shows "\<exists>ordersData additionalData. rs = trackings pf ordersData additionalData"
  using assms by (auto simp: loadTrackings_def Let_def split: sum.splits)

subsection \<open>The post-filter\<close>

text \<open>
  A text trims to the empty text exactly when all its characters are white space, so
  the filter keeps a constructed record exactly when the tracking number of its primary
  row has a character that is not white space.
\<close>

lemma trim_empty_iff: "trim t = [] \<longleftrightarrow> list_all is_space t"
proof
  assume e: "trim t = []"
  then have a: "\<forall>c \<in> set (dropWhile is_space t). is_space c"
    by (simp add: trim_def dropWhile_eq_Nil_conv)
  have "dropWhile is_space t = []"
  proof (rule ccontr)
    assume n: "dropWhile is_space t \<noteq> []"
    then have "\<not> is_space (hd (dropWhile is_space t))" by (rule hd_dropWhile)
    moreover have "hd (dropWhile is_space t) \<in> set (dropWhile is_space t)" using n by simp
    ultimately show False using a by blast
  qed
  then have "\<forall>c \<in> set t. is_space c"
    by (simp only: dropWhile_eq_Nil_conv)
  then show "list_all is_space t"
    by (simp add: list_all_iff)
next
  assume "list_all is_space t"
  then have "\<forall>c \<in> set t. is_space c"
    by (simp add: list_all_iff)
  then have "dropWhile is_space t = []"
    by (simp only: dropWhile_eq_Nil_conv)
  then show "trim t = []"
    by (simp only: trim_def rev.simps dropWhile.simps)
qed

lemma has_tracking_number_not_blank:
  "has_tracking_number r \<longleftrightarrow>
     (\<exists>t. obj_get r ''tracking_number'' = Some t \<and> \<not> list_all is_space t)"
  by (auto simp: has_tracking_number_def trim_empty_iff split: option.splits)

lemma build_tracking_number:
  "obj_get (build_tracking pf additionalData (i, row)) ''tracking_number''
     = Some (fld row ''tracking_number'')"
  by (simp add: build_tracking_def obj_get_merge_additional base_tracking_number)

lemma has_tracking_number_build:
  "has_tracking_number (build_tracking pf additionalData (i, row))
     \<longleftrightarrow> \<not> list_all is_space (fld row ''tracking_number'')"
  by (simp add: has_tracking_number_not_blank build_tracking_number)

lemma enumerate_nth_mem:
  "i < length xs \<Longrightarrow> (i, xs ! i) \<in> set (enumerate 0 xs)"
  by (simp add: in_set_enumerate_eq)

text \<open>
  Claim C1. For every pair of primary and supplemental row sequences, every record that
  reconciliation returns has a \<^verbatim>\<open>tracking_number\<close> that is not empty and has a
  character that is not white space, and so has every record of a successful
  \<open>loadTrackings\<close>. The record constructed for a primary row is dropped when the
  row's tracking number is absent, empty or white space only, and is returned
  otherwise; the tracking numbers of the returned records are those of the primary
  rows that are not blank, in the order of the rows.
\<close>

theorem trackings_tracking_number_not_blank:
  "(\<forall>r \<in> set (trackings pf ordersData additionalData).
      \<exists>t. obj_get r ''tracking_number'' = Some t \<and> t \<noteq> [] \<and> \<not> list_all is_space t)
   \<and> (loadTrackings pf = Inr rs \<longrightarrow>
        (\<forall>r \<in> set rs.
           \<exists>t. obj_get r ''tracking_number'' = Some t \<and> t \<noteq> [] \<and> \<not> list_all is_space t))
   \<and> (i < length ordersData \<and> list_all is_space (fld (ordersData ! i) ''tracking_number'')
        \<longrightarrow> build_tracking pf additionalData (i, ordersData ! i)
              \<notin> set (trackings pf ordersData additionalData))
   \<and> (i < length ordersData \<and> \<not> list_all is_space (fld (ordersData ! i) ''tracking_number'')
        \<longrightarrow> build_tracking pf additionalData (i, ordersData ! i)
              \<in> set (trackings pf ordersData additionalData))
   \<and> map (\<lambda>r. fld r ''tracking_number'') (trackings pf ordersData additionalData)
        = filter (\<lambda>t. \<not> list_all is_space t)
            (map (\<lambda>row. fld row ''tracking_number'') ordersData)"
proof -
  have a: "\<forall>r \<in> set (trackings pf' od ad).
      \<exists>t. obj_get r ''tracking_number'' = Some t \<and> t \<noteq> [] \<and> \<not> list_all is_space t"
    for pf' od ad
    by (auto simp: trackings_def has_tracking_number_not_blank)
  have b: "loadTrackings pf = Inr rs \<longrightarrow>
        (\<forall>r \<in> set rs.
           \<exists>t. obj_get r ''tracking_number'' = Some t \<and> t \<noteq> [] \<and> \<not> list_all is_space t)"
    using a loadTrackings_Inr [of pf rs] by blast
  have c: "i < length ordersData \<and> list_all is_space (fld (ordersData ! i) ''tracking_number'')
        \<longrightarrow> build_tracking pf additionalData (i, ordersData ! i)
              \<notin> set (trackings pf ordersData additionalData)"
    by (simp add: trackings_def has_tracking_number_build)
  have d: "i < length ordersData \<and> \<not> list_all is_space (fld (ordersData ! i) ''tracking_number'')
        \<longrightarrow> build_tracking pf additionalData (i, ordersData ! i)
              \<in> set (trackings pf ordersData additionalData)"
    using enumerate_nth_mem [of i ordersData]
    by (auto simp: trackings_def has_tracking_number_build)
  have f: "fld (build_tracking pf additionalData (j, row)) ''tracking_number''
             = fld row ''tracking_number''" for j row
    by (simp add: fld_def build_tracking_number)
  have g: "map (\<lambda>r. fld r ''tracking_number'')
             (filter has_tracking_number (map (build_tracking pf additionalData) xs))
           = filter (\<lambda>t. \<not> list_all is_space t) (map (\<lambda>row. fld row ''tracking_number'') (map snd xs))"
    for xs
    by (induction xs) (auto simp: has_tracking_number_build f)
  have e: "map (\<lambda>r. fld r ''tracking_number'') (trackings pf ordersData additionalData)
        = filter (\<lambda>t. \<not> list_all is_space t)
            (map (\<lambda>row. fld row ''tracking_number'') ordersData)"
    using g [of "enumerate 0 ordersData"] by (simp add: trackings_def)
  from a b c d e show ?thesis by blast
qed

theorem trackings_tracking_number_not_blank_witness:
  "map (\<lambda>r. fld r ''tracking_number'') (trackings blanks_host example_blanks [])
     = [''1Z999'', '' T-2 '']
   \<and> loadTrackings blanks_host = Inr (trackings blanks_host example_blanks [])
   \<and> (1 < length example_blanks
        \<and> list_all is_space (fld (example_blanks ! 1) ''tracking_number''))
   \<and> build_tracking blanks_host [] (1, example_blanks ! 1)
        \<notin> set (trackings blanks_host example_blanks [])
   \<and> (4 < length example_blanks
        \<and> list_all is_space (fld (example_blanks ! 4) ''tracking_number''))
   \<and> build_tracking blanks_host [] (4, example_blanks ! 4)
        \<notin> set (trackings blanks_host example_blanks [])
   \<and> (2 < length example_blanks
        \<and> \<not> list_all is_space (fld (example_blanks ! 2) ''tracking_number''))
   \<and> build_tracking blanks_host [] (2, example_blanks ! 2)
        \<in> set (trackings blanks_host example_blanks [])
   \<and> (\<exists>t. obj_get (build_tracking blanks_host [] (2, example_blanks ! 2)) ''tracking_number''
              = Some t \<and> t \<noteq> [] \<and> \<not> list_all is_space t)"
proof -
  have kept: "filter (\<lambda>t. \<not> list_all is_space t)
                (map (\<lambda>row. fld row ''tracking_number'') example_blanks)
              = [''1Z999'', '' T-2 '']"
    by code_simp
  have l: "loadTrackings blanks_host = Inr (trackings blanks_host example_blanks [])"
    by (simp add: loadTrackings_def loadCSVFile_def blanks_host_def example_platform_def
          csvPath_def additionalCsvPath_def)
  have h1: "1 < length example_blanks
        \<and> list_all is_space (fld (example_blanks ! 1) ''tracking_number'')"
    by code_simp
  have h4: "4 < length example_blanks
        \<and> list_all is_space (fld (example_blanks ! 4) ''tracking_number'')"
    by code_simp
  have h2: "2 < length example_blanks
        \<and> \<not> list_all is_space (fld (example_blanks ! 2) ''tracking_number'')"
    by code_simp
  note at1 = trackings_tracking_number_not_blank
      [where pf = blanks_host and ordersData = example_blanks and additionalData = "[]"
         and i = 1 and rs = "trackings blanks_host example_blanks []"]
  note at4 = trackings_tracking_number_not_blank
      [where pf = blanks_host and ordersData = example_blanks and additionalData = "[]"
         and i = 4 and rs = "trackings blanks_host example_blanks []"]
  note at2 = trackings_tracking_number_not_blank
      [where pf = blanks_host and ordersData = example_blanks and additionalData = "[]"
         and i = 2 and rs = "trackings blanks_host example_blanks []"]
  have e: "map (\<lambda>r. fld r ''tracking_number'') (trackings blanks_host example_blanks [])
     = [''1Z999'', '' T-2 '']"
    using at1 kept by simp
  have d1: "build_tracking blanks_host [] (1, example_blanks ! 1)
        \<notin> set (trackings blanks_host example_blanks [])"
    using at1 h1 by blast
  have d4: "build_tracking blanks_host [] (4, example_blanks ! 4)
        \<notin> set (trackings blanks_host example_blanks [])"
    using at4 h4 by blast
  have k2: "build_tracking blanks_host [] (2, example_blanks ! 2)
        \<in> set (trackings blanks_host example_blanks [])"
    using at2 h2 by blast
  have n2: "\<exists>t. obj_get (build_tracking blanks_host [] (2, example_blanks ! 2)) ''tracking_number''
              = Some t \<and> t \<noteq> [] \<and> \<not> list_all is_space t"
    using at2 l k2 by blast
  from e l h1 d1 h4 d4 h2 k2 n2 show ?thesis
    by (simp only: simp_thms)
qed

subsection \<open>The tags of reconciled records\<close>

text \<open>
  Claim C10. For every input text \<open>determineStatus\<close> returns \<^verbatim>\<open>delivered\<close>,
  \<^verbatim>\<open>out_for_delivery\<close> or \<^verbatim>\<open>in_transit\<close>, and the tag of every reconciled record is
  one of these three: never \<^verbatim>\<open>pending\<close> and never \<^verbatim>\<open>exception\<close>, whatever the
  supplemental rows contain.
\<close>

theorem determineStatus_three_tags:
  "determineStatus pf s \<in> {''delivered'', ''out_for_delivery'', ''in_transit''}
   \<and> (\<forall>r \<in> set (trackings pf ordersData additionalData).
        \<exists>t. obj_get r ''tag'' = Some t
            \<and> t \<in> {''delivered'', ''out_for_delivery'', ''in_transit''}
            \<and> t \<noteq> ''pending'' \<and> t \<noteq> ''exception'')"
proof
  show "determineStatus pf s \<in> {''delivered'', ''out_for_delivery'', ''in_transit''}"
    using determineStatus_range [of pf s] by auto
next
  show "\<forall>r \<in> set (trackings pf ordersData additionalData).
        \<exists>t. obj_get r ''tag'' = Some t
            \<and> t \<in> {''delivered'', ''out_for_delivery'', ''in_transit''}
            \<and> t \<noteq> ''pending'' \<and> t \<noteq> ''exception''"
  proof
    fix r
    assume "r \<in> set (trackings pf ordersData additionalData)"
    then obtain i where r: "r = build_tracking pf additionalData (i, ordersData ! i)"
      by (auto simp: in_trackings)
    have "obj_get r ''tag'' = Some (determineStatus pf (fld (ordersData ! i) ''estimated_delivery''))"
      by (simp add: r build_tracking_def obj_get_merge_additional base_tag)
    then show "\<exists>t. obj_get r ''tag'' = Some t
            \<and> t \<in> {''delivered'', ''out_for_delivery'', ''in_transit''}
            \<and> t \<noteq> ''pending'' \<and> t \<noteq> ''exception''"
      using determineStatus_range [of pf "fld (ordersData ! i) ''estimated_delivery''"]
      by auto
  qed
qed

theorem determineStatus_three_tags_witness:
  "trackings example_platform example_orders example_additional ! 3
     \<in> set (trackings example_platform example_orders example_additional)
   \<and> (\<exists>t. obj_get (trackings example_platform example_orders example_additional ! 3)
             ''tag'' = Some t
          \<and> t \<in> {''delivered'', ''out_for_delivery'', ''in_transit''}
          \<and> t \<noteq> ''pending'' \<and> t \<noteq> ''exception'')"
proof -
  have m: "trackings example_platform example_orders example_additional ! 3
     \<in> set (trackings example_platform example_orders example_additional)"
    by code_simp
  from determineStatus_three_tags
         [of example_platform _ example_orders example_additional] m
  show ?thesis by blast
qed

subsection \<open>The supplemental match\<close>

text \<open>
  What the lookup holds: an entry under a key is a supplemental row whose own key, in
  lower case, is that key, and a key has no entry exactly when no row has it.
\<close>

lemma additionalDataMap_snoc:
  "additionalDataMap (rows @ [row]) =
     (if additional_key row \<noteq> []
      then (additionalDataMap rows)(toLowerCase (additional_key row) \<mapsto> row)
      else additionalDataMap rows)"
  by (simp add: additionalDataMap_def Let_def)

lemma additionalDataMap_Some:
  "additionalDataMap rows k = Some r \<Longrightarrow>
     r \<in> set rows \<and> additional_key r \<noteq> [] \<and> toLowerCase (additional_key r) = k"
proof (induction rows rule: rev_induct)
  case Nil
  then show ?case by (simp add: additionalDataMap_def)
next
  case (snoc row rows)
  then show ?case
    by (auto simp: additionalDataMap_snoc split: if_splits)
qed

lemma additionalDataMap_None:
  "additionalDataMap rows k = None \<longleftrightarrow>
     (\<forall>r \<in> set rows. additional_key r = [] \<or> toLowerCase (additional_key r) \<noteq> k)"
proof (induction rows rule: rev_induct)
  case Nil
  show ?case by (simp add: additionalDataMap_def)
next
  case (snoc row rows)
  then show ?case
    by (auto simp: additionalDataMap_snoc split: if_splits)
qed

text \<open>
  Claim C2. The supplemental match of the primary row at position \<open>i\<close> is the entry
  of the lookup under the row's order number in lower case if there is one; else the
  entry under its tracking number in lower case; else the entry under its PO number in
  lower case; else the supplemental row at index \<open>i\<close> if there is one; else the empty
  object. When the lookup has an entry for the order number and a different entry for
  the tracking number, the match is the entry for the order number.
\<close>

theorem additionalInfo_precedence:
  "(additionalDataMap additionalData (toLowerCase (fld row ''order_number'')) = Some r
      \<longrightarrow> additionalInfo additionalData row i = r)
   \<and> (additionalDataMap additionalData (toLowerCase (fld row ''order_number'')) = None
       \<and> additionalDataMap additionalData (toLowerCase (fld row ''tracking_number'')) = Some r
      \<longrightarrow> additionalInfo additionalData row i = r)
   \<and> (additionalDataMap additionalData (toLowerCase (fld row ''order_number'')) = None
       \<and> additionalDataMap additionalData (toLowerCase (fld row ''tracking_number'')) = None
       \<and> additionalDataMap additionalData (toLowerCase (fld row ''po_number'')) = Some r
      \<longrightarrow> additionalInfo additionalData row i = r)
   \<and> (additionalDataMap additionalData (toLowerCase (fld row ''order_number'')) = None
       \<and> additionalDataMap additionalData (toLowerCase (fld row ''tracking_number'')) = None
       \<and> additionalDataMap additionalData (toLowerCase (fld row ''po_number'')) = None
       \<and> i < length additionalData
      \<longrightarrow> additionalInfo additionalData row i = additionalData ! i)
   \<and> (additionalDataMap additionalData (toLowerCase (fld row ''order_number'')) = None
       \<and> additionalDataMap additionalData (toLowerCase (fld row ''tracking_number'')) = None
       \<and> additionalDataMap additionalData (toLowerCase (fld row ''po_number'')) = None
       \<and> length additionalData \<le> i
      \<longrightarrow> additionalInfo additionalData row i = [])
   \<and> (additionalDataMap additionalData (toLowerCase (fld row ''order_number'')) = Some r
       \<and> additionalDataMap additionalData (toLowerCase (fld row ''tracking_number'')) = Some r'
       \<and> r \<noteq> r'
      \<longrightarrow> additionalInfo additionalData row i = r \<and> additionalInfo additionalData row i \<noteq> r')"
  by (simp add: additionalInfo_def Let_def)


theorem additionalInfo_precedence_witness:
  "(additionalDataMap example_additional (toLowerCase (fld (example_orders ! 0) ''order_number''))
      = Some (example_additional ! 2)
    \<and> additionalInfo example_additional (example_orders ! 0) 0 = example_additional ! 2)
   \<and> (additionalDataMap example_additional (toLowerCase (fld (example_orders ! 1) ''order_number''))
         = None
       \<and> additionalDataMap example_additional
            (toLowerCase (fld (example_orders ! 1) ''tracking_number''))
          = Some (example_additional ! 0)
       \<and> additionalInfo example_additional (example_orders ! 1) 1 = example_additional ! 0)
   \<and> (additionalDataMap example_additional (toLowerCase (fld (example_orders ! 2) ''order_number''))
         = None
       \<and> additionalDataMap example_additional
            (toLowerCase (fld (example_orders ! 2) ''tracking_number'')) = None
       \<and> additionalDataMap example_additional (toLowerCase (fld (example_orders ! 2) ''po_number''))
          = Some (example_additional ! 1)
       \<and> additionalInfo example_additional (example_orders ! 2) 2 = example_additional ! 1)
   \<and> (additionalDataMap example_additional (toLowerCase (fld (example_orders ! 3) ''order_number''))
         = None
       \<and> additionalDataMap example_additional
            (toLowerCase (fld (example_orders ! 3) ''tracking_number'')) = None
       \<and> additionalDataMap example_additional (toLowerCase (fld (example_orders ! 3) ''po_number''))
          = None
       \<and> 3 < length example_additional
       \<and> additionalInfo example_additional (example_orders ! 3) 3 = example_additional ! 3)
   \<and> (additionalDataMap example_additional (toLowerCase (fld (example_orders ! 4) ''order_number''))
         = None
       \<and> additionalDataMap example_additional
            (toLowerCase (fld (example_orders ! 4) ''tracking_number'')) = None
       \<and> additionalDataMap example_additional (toLowerCase (fld (example_orders ! 4) ''po_number''))
          = None
       \<and> length example_additional \<le> 4
       \<and> additionalInfo example_additional (example_orders ! 4) 4 = [])
   \<and> (additionalDataMap example_additional
         (toLowerCase (fld (example_orders ! 0) ''tracking_number''))
        = Some (example_additional ! 0)
       \<and> example_additional ! 2 \<noteq> example_additional ! 0
       \<and> additionalInfo example_additional (example_orders ! 0) 0 \<noteq> example_additional ! 0)"
proof -
  have o0: "additionalDataMap example_additional
              (toLowerCase (fld (example_orders ! 0) ''order_number''))
            = Some (example_additional ! 2)"
    by code_simp
  have t0: "additionalDataMap example_additional
              (toLowerCase (fld (example_orders ! 0) ''tracking_number''))
            = Some (example_additional ! 0)"
    by code_simp
  have d0: "example_additional ! 2 \<noteq> example_additional ! 0"
    by code_simp
  have o1: "additionalDataMap example_additional
              (toLowerCase (fld (example_orders ! 1) ''order_number'')) = None"
    by code_simp
  have t1: "additionalDataMap example_additional
              (toLowerCase (fld (example_orders ! 1) ''tracking_number''))
            = Some (example_additional ! 0)"
    by code_simp
  have o2: "additionalDataMap example_additional
              (toLowerCase (fld (example_orders ! 2) ''order_number'')) = None"
    by code_simp
  have t2: "additionalDataMap example_additional
              (toLowerCase (fld (example_orders ! 2) ''tracking_number'')) = None"
    by code_simp
  have p2: "additionalDataMap example_additional
              (toLowerCase (fld (example_orders ! 2) ''po_number''))
            = Some (example_additional ! 1)"
    by code_simp
  have o3: "additionalDataMap example_additional
              (toLowerCase (fld (example_orders ! 3) ''order_number'')) = None"
    by code_simp
  have t3: "additionalDataMap example_additional
              (toLowerCase (fld (example_orders ! 3) ''tracking_number'')) = None"
    by code_simp
  have p3: "additionalDataMap example_additional
              (toLowerCase (fld (example_orders ! 3) ''po_number'')) = None"
    by code_simp
  have l3: "3 < length example_additional"
    by code_simp
  have o4: "additionalDataMap example_additional
              (toLowerCase (fld (example_orders ! 4) ''order_number'')) = None"
    by code_simp
  have t4: "additionalDataMap example_additional
              (toLowerCase (fld (example_orders ! 4) ''tracking_number'')) = None"
    by code_simp
  have p4: "additionalDataMap example_additional
              (toLowerCase (fld (example_orders ! 4) ''po_number'')) = None"
    by code_simp
  have l4: "length example_additional \<le> 4"
    by code_simp
  note byOrder = additionalInfo_precedence
      [where additionalData = example_additional and row = "example_orders ! 0" and i = 0
         and r = "example_additional ! 2" and r' = "example_additional ! 0"]
  note byTracking = additionalInfo_precedence
      [where additionalData = example_additional and row = "example_orders ! 1" and i = 1
         and r = "example_additional ! 0"]
  note byPo = additionalInfo_precedence
      [where additionalData = example_additional and row = "example_orders ! 2" and i = 2
         and r = "example_additional ! 1"]
  note byIndex = additionalInfo_precedence
      [where additionalData = example_additional and row = "example_orders ! 3" and i = 3]
  note noMatch = additionalInfo_precedence
      [where additionalData = example_additional and row = "example_orders ! 4" and i = 4]
  have a0: "additionalInfo example_additional (example_orders ! 0) 0 = example_additional ! 2"
    using byOrder o0 by blast
  have n0: "additionalInfo example_additional (example_orders ! 0) 0 \<noteq> example_additional ! 0"
    using byOrder o0 t0 d0 by blast
  have a1: "additionalInfo example_additional (example_orders ! 1) 1 = example_additional ! 0"
    using byTracking o1 t1 by blast
  have a2: "additionalInfo example_additional (example_orders ! 2) 2 = example_additional ! 1"
    using byPo o2 t2 p2 by blast
  have a3: "additionalInfo example_additional (example_orders ! 3) 3 = example_additional ! 3"
    using byIndex o3 t3 p3 l3 by blast
  have a4: "additionalInfo example_additional (example_orders ! 4) 4 = []"
    using noMatch o4 t4 p4 l4 by blast
  from o0 t0 d0 o1 t1 o2 t2 p2 o3 t3 p3 l3 o4 t4 p4 l4 a0 n0 a1 a2 a3 a4
  show ?thesis by (simp only: simp_thms)
qed

subsection \<open>The merge policy\<close>

lemma base_title:
  "obj_get (baseTracking pf row i) ''title''
     = Some (or_else (fld row ''subject'')
               (trim (fld row ''from_company'' @ '' Order '' @ fld row ''order_number'')))"
  by (simp add: baseTracking_def obj_get_def Let_def)

text \<open>
  Claim C3. After the merge a key has the value of the base record if the base record
  defines it; otherwise it has the supplemental value if that value is not empty, and
  stays undefined if it is. So every key of the base record keeps its base value in
  the constructed record, whatever the supplemental match defines under that key; the
  title, for instance, is always the one computed from the primary row.
\<close>

theorem merge_base_keys_win:
  "obj_get (merge_additional info bt) k
     = (case obj_get bt k of
          Some v \<Rightarrow> Some v
        | None \<Rightarrow> if fld info k \<noteq> [] then Some (fld info k) else None)
   \<and> (hasOwnProperty (baseTracking pf row i) k \<longrightarrow>
        obj_get (build_tracking pf additionalData (i, row)) k
          = obj_get (baseTracking pf row i) k)
   \<and> obj_get (build_tracking pf additionalData (i, row)) ''title''
        = Some (or_else (fld row ''subject'')
                  (trim (fld row ''from_company'' @ '' Order '' @ fld row ''order_number'')))"
proof (intro conjI impI)
  show "obj_get (merge_additional info bt) k
     = (case obj_get bt k of
          Some v \<Rightarrow> Some v
        | None \<Rightarrow> if fld info k \<noteq> [] then Some (fld info k) else None)"
    by (rule obj_get_merge_additional)
next
  assume "hasOwnProperty (baseTracking pf row i) k"
  then show "obj_get (build_tracking pf additionalData (i, row)) k
          = obj_get (baseTracking pf row i) k"
    by (auto simp: build_tracking_def obj_get_merge_additional hasOwnProperty_def)
next
  show "obj_get (build_tracking pf additionalData (i, row)) ''title''
        = Some (or_else (fld row ''subject'')
                  (trim (fld row ''from_company'' @ '' Order '' @ fld row ''order_number'')))"
    by (simp add: build_tracking_def obj_get_merge_additional base_title)
qed

theorem merge_base_keys_win_witness:
  "hasOwnProperty (baseTracking example_platform (hd example_orders) 0) ''title''
   \<and> fld (additionalInfo example_additional (hd example_orders) 0) ''title'' = ''Other title''
   \<and> obj_get (build_tracking example_platform example_additional (0, hd example_orders))
        ''title''
       = obj_get (baseTracking example_platform (hd example_orders) 0) ''title''
   \<and> obj_get (baseTracking example_platform (hd example_orders) 0) ''title''
       = Some ''Order so-7''"
proof -
  have h: "hasOwnProperty (baseTracking example_platform (hd example_orders) 0) ''title''"
    by code_simp
  have s: "fld (additionalInfo example_additional (hd example_orders) 0) ''title''
             = ''Other title''"
    by code_simp
  have b: "obj_get (baseTracking example_platform (hd example_orders) 0) ''title''
       = Some ''Order so-7''"
    by code_simp
  from merge_base_keys_win
         [where pf = example_platform and row = "hd example_orders" and i = 0
            and k = "''title''" and additionalData = example_additional]
       h s b
  show ?thesis by (simp only: simp_thms)
qed

subsection \<open>Failing requests\<close>

text \<open>
  Claim C8. When the request for the primary source is answered with a status that is
  not ok, or is rejected, \<open>loadTrackings\<close> fails with one error whose message wraps
  the underlying message, and returns no records. When the request for the
  supplemental source is answered with a status that is not ok, \<open>loadCSVFile\<close>
  returns the empty row sequence; in that case and when the request is rejected, the
  load goes on with the primary rows and no supplemental rows.
\<close>

theorem load_failures:
  "(fetch pf csvPath = Resolved resp \<and> \<not> ok resp \<longrightarrow>
      loadCSVFile pf csvPath = Inl (''Failed to load CSV: '' @ statusText resp)
      \<and> loadTrackings pf
          = Inl (''Failed to load CSV file: '' @ ''Failed to load CSV: '' @ statusText resp))
   \<and> (fetch pf csvPath = Rejected msg \<longrightarrow>
        loadTrackings pf = Inl (''Failed to load CSV file: '' @ msg))
   \<and> (fetch pf additionalCsvPath = Resolved resp' \<and> \<not> ok resp' \<longrightarrow>
        loadCSVFile pf additionalCsvPath = Inr [])
   \<and> (fetch pf additionalCsvPath = Resolved resp' \<and> \<not> ok resp'
       \<and> loadCSVFile pf csvPath = Inr ordersData \<longrightarrow>
        loadTrackings pf = Inr (trackings pf ordersData []))
   \<and> (fetch pf additionalCsvPath = Rejected msg'
       \<and> loadCSVFile pf csvPath = Inr ordersData \<longrightarrow>
        loadTrackings pf = Inr (trackings pf ordersData []))"
  by (simp add: loadCSVFile_def loadTrackings_def csvPath_def additionalCsvPath_def)

theorem load_failures_witness:
  "(fetch primary_missing csvPath
      = Resolved \<lparr>ok = False, statusText = ''Not Found'', body = []\<rparr>
    \<and> \<not> ok \<lparr>ok = False, statusText = ''Not Found'', body = []\<rparr>
    \<and> loadTrackings primary_missing
        = Inl ''Failed to load CSV file: Failed to load CSV: Not Found'')
   \<and> (fetch network_down csvPath = Rejected ''Failed to fetch''
       \<and> loadTrackings network_down = Inl ''Failed to load CSV file: Failed to fetch'')
   \<and> (fetch example_platform additionalCsvPath
         = Resolved \<lparr>ok = False, statusText = ''Not Found'', body = []\<rparr>
       \<and> loadCSVFile example_platform csvPath = Inr example_rows
       \<and> loadCSVFile example_platform additionalCsvPath = Inr []
       \<and> loadTrackings example_platform = Inr (trackings example_platform example_rows []))
   \<and> (fetch supplemental_unreachable additionalCsvPath = Rejected ''Failed to fetch''
       \<and> loadCSVFile supplemental_unreachable csvPath = Inr example_rows
       \<and> loadTrackings supplemental_unreachable
           = Inr (trackings supplemental_unreachable example_rows []))"
proof -
  have f1: "fetch primary_missing csvPath
      = Resolved \<lparr>ok = False, statusText = ''Not Found'', body = []\<rparr>"
    by code_simp
  have k1: "\<not> ok \<lparr>ok = False, statusText = ''Not Found'', body = []\<rparr>"
    by simp
  have s1: "statusText \<lparr>ok = False, statusText = ''Not Found'', body = []\<rparr> = ''Not Found''"
    by simp
  have f2: "fetch network_down csvPath = Rejected ''Failed to fetch''"
    by code_simp
  have f3: "fetch example_platform additionalCsvPath
         = Resolved \<lparr>ok = False, statusText = ''Not Found'', body = []\<rparr>"
    by code_simp
  have p3: "loadCSVFile example_platform csvPath = Inr example_rows"
    by code_simp
  have f4: "fetch supplemental_unreachable additionalCsvPath = Rejected ''Failed to fetch''"
    by code_simp
  have p4: "loadCSVFile supplemental_unreachable csvPath = Inr example_rows"
    by code_simp
  note a = load_failures
      [where pf = primary_missing
         and resp = "\<lparr>ok = False, statusText = ''Not Found'', body = []\<rparr>"]
  note b = load_failures [where pf = network_down and msg = "''Failed to fetch''"]
  note c = load_failures
      [where pf = example_platform
         and resp' = "\<lparr>ok = False, statusText = ''Not Found'', body = []\<rparr>"
         and ordersData = example_rows]
  note d = load_failures
      [where pf = supplemental_unreachable and msg' = "''Failed to fetch''"
         and ordersData = example_rows]
  have r1: "loadTrackings primary_missing
        = Inl ''Failed to load CSV file: Failed to load CSV: Not Found''"
    using a f1 k1 s1 by simp
  have r2: "loadTrackings network_down = Inl ''Failed to load CSV file: Failed to fetch''"
    using b f2 by simp
  have r3: "loadCSVFile example_platform additionalCsvPath = Inr []
       \<and> loadTrackings example_platform = Inr (trackings example_platform example_rows [])"
    using c f3 k1 p3 by blast
  have r4: "loadTrackings supplemental_unreachable
           = Inr (trackings supplemental_unreachable example_rows [])"
    using d f4 p4 by blast
  from f1 k1 f2 f3 p3 f4 p4 r1 r2 r3 r4 show ?thesis
    by (simp only: simp_thms)
qed

subsection \<open>Destination parsing\<close>

lemma parseDestination_city_state:
  "parseDestination ''Chicago, IL'' = \<lparr>city = Some ''Chicago'', state = Some ''IL''\<rparr>"
  by code_simp

text \<open>
  Claim C5. For \<^verbatim>\<open>Acme Site - Chicago, IL\<close> the function finds the state \<^verbatim>\<open>IL\<close> and
  takes as city the first non-empty part that is not a bare state code; that part is the
  site name \<^verbatim>\<open>Acme Site\<close>, so the result is city \<^verbatim>\<open>Acme Site\<close>, state \<^verbatim>\<open>IL\<close>
  and not city \<^verbatim>\<open>Chicago\<close>. For \<^verbatim>\<open>Acme Site\<close> the result is empty.
\<close>

theorem parseDestination_site_city_state:
  "parseDestination ''Acme Site - Chicago, IL'' = \<lparr>city = Some ''Acme Site'', state = Some ''IL''\<rparr>
   \<and> parseDestination ''Acme Site'' = no_destination"
  by code_simp

subsection \<open>Sorting by a date column\<close>

text \<open>
  When the comparison function finds no two of the records different, the sort returns
  them in their order.
\<close>

lemma insert_by_equal:
  "(\<forall>y \<in> set ys. comparator_result (cmp x y) = 0) \<Longrightarrow> insert_by cmp x ys = x # ys"
  by (cases ys) simp_all

lemma array_sort_all_equal:
  "(\<forall>x \<in> set xs. \<forall>y \<in> set xs. comparator_result (cmp x y) = 0)
     \<Longrightarrow> array_sort cmp xs = xs"
  by (induction xs) (simp_all add: array_sort_def insert_by_equal)

lemma sortTrackings_unset:
  "sortTrackings pf trks None direction = trks \<and> sortTrackings pf trks column None = trks"
  by (simp add: sortTrackings_def split: option.splits)

text \<open>
  Claim C7. Two reconciled records, the first shipped on a parseable date and the second
  with the ship date \<^verbatim>\<open>not-a-date\<close>, sorted ascending by ship date: the value of the
  second record is \<^verbatim>\<open>NaN\<close>, not 0, the comparison function returns \<^verbatim>\<open>NaN\<close> in both
  directions, and the sort leaves the unparseable record in last place instead of moving
  it to the front.
\<close>

theorem sortTrackings_unparseable_date:
  "map (\<lambda>r. fld r ''last_updated_at'') example_shipment_records
     = [''2025-01-01T00:00:00Z'', ''not-a-date'']
   \<and> sort_value example_platform Col_ship_date (example_shipment_records ! 0)
       = SNum (Some 1735689600000)
   \<and> sort_value example_platform Col_ship_date (example_shipment_records ! 1) = SNum None
   \<and> compareTrackings example_platform Col_ship_date Asc
        (example_shipment_records ! 1) (example_shipment_records ! 0) = None
   \<and> compareTrackings example_platform Col_ship_date Asc
        (example_shipment_records ! 0) (example_shipment_records ! 1) = None
   \<and> sortTrackings example_platform example_shipment_records (Some Col_ship_date) (Some Asc)
       = example_shipment_records"
  by code_simp

subsection \<open>Searching\<close>

lemma example_dated_trackings:
  "trackings example_platform example_dated [] = [example_dated_record]"
  by code_simp

lemma example_date_local: "date_local 2025 10 13 = 20405 * msPerDay"
  by code_simp

lemma example_civil: "civil_from_days 20405 = (2025, 11, 13)"
  by code_simp

lemma example_show_nat: "show_nat 13 = ''13''" "show_nat 2025 = ''2025''"
  by code_simp+

lemma example_date_rendered: "toLocaleDateString (20405 * msPerDay) = ''Nov 13, 2025''"
  by (simp add: toLocaleDateString_def msPerDay_def example_civil example_show_nat
        month_short_def)

lemma example_date_text:
  "trim ''2025-11-13'' = ''2025-11-13''"
  "dateOnlyMatch ''2025-11-13'' = Some (2025, 11, 13)"
  by code_simp+

lemma example_format:
  "formatDate pf (Some ''2025-11-13'') = ''Nov 13, 2025''"
  "formatDate pf (Some []) = ''N/A''"
  by (simp_all add: formatDate_def example_date_text example_date_local example_date_rendered)

lemma example_lower:
  "toLowerCase ''T-8'' = ''t-8''" "toLowerCase ''delivered'' = ''delivered''"
  "toLowerCase ''Order'' = ''order''" "toLowerCase ''N/A'' = ''n/a''"
  "toLowerCase ''Nov 13, 2025'' = ''nov 13, 2025''"
  by code_simp+

lemma example_dated_fields:
  "searchableFields pf example_dated_record
     = [''t-8'', ''delivered'', ''order'', ''nov 13, 2025'', ''nov 13, 2025'', ''nov 13, 2025'']"
  by (simp add: searchableFields_def allFieldValues_def example_dated_record_def fld_def
        obj_get_def obj_keys_def named_fields_def example_format example_lower)

lemma example_not_found:
  "\<not> list_ex (\<lambda>field. str_includes field ''tracking-0'')
        [''t-8'', ''delivered'', ''order'', ''nov 13, 2025'', ''nov 13, 2025'', ''nov 13, 2025'']"
  "\<not> list_ex (\<lambda>field. str_includes field ''2025-11-13'')
        [''t-8'', ''delivered'', ''order'', ''nov 13, 2025'', ''nov 13, 2025'', ''nov 13, 2025'']"
  by simp_all

lemma example_search_texts:
  "trim ''tracking-0'' = ''tracking-0''" "trim (toLowerCase ''tracking-0'') = ''tracking-0''"
  "trim (toLowerCase ''2025-11-13'') = ''2025-11-13''"
  by code_simp+

text \<open>
  Claim C6 as stated fails: a reconciled record with the identifier \<^verbatim>\<open>tracking-0\<close>
  and the text \<^verbatim>\<open>2025-11-13\<close> in its three date fields is found neither by the search
  text \<^verbatim>\<open>tracking-0\<close> nor by the search text \<^verbatim>\<open>2025-11-13\<close>.
\<close>

theorem search_round_trip_counterexample:
  "example_dated_record \<in> set (trackings example_platform example_dated [])
   \<and> obj_get example_dated_record ''id'' = Some ''tracking-0''
   \<and> example_dated_record
        \<notin> set (filterTrackings example_platform (trackings example_platform example_dated [])
                 ''tracking-0'' [])
   \<and> obj_get example_dated_record ''last_updated_at'' = Some ''2025-11-13''
   \<and> obj_get example_dated_record ''estimated_delivery'' = Some ''2025-11-13''
   \<and> obj_get example_dated_record ''checkpoint_date'' = Some ''2025-11-13''
   \<and> example_dated_record
        \<notin> set (filterTrackings example_platform (trackings example_platform example_dated [])
                 ''2025-11-13'' [])"
proof -
  have a: "obj_get example_dated_record ''id'' = Some ''tracking-0''"
    by (simp add: example_dated_record_def obj_get_def)
  have b: "obj_get example_dated_record ''last_updated_at'' = Some ''2025-11-13''"
    "obj_get example_dated_record ''estimated_delivery'' = Some ''2025-11-13''"
    "obj_get example_dated_record ''checkpoint_date'' = Some ''2025-11-13''"
    by (simp_all add: example_dated_record_def obj_get_def)
  have c: "filterTrackings example_platform [example_dated_record] ''tracking-0'' [] = []"
    by (simp add: filterTrackings_def example_search_texts example_dated_fields
          example_not_found)
  have d: "filterTrackings example_platform [example_dated_record] ''2025-11-13'' [] = []"
    by (simp add: filterTrackings_def example_search_texts example_date_text
          example_dated_fields example_not_found)
  from a b c d show ?thesis
    by (simp add: example_dated_trackings)
qed

lemma starts_with_iff: "starts_with hay needle \<longleftrightarrow> (\<exists>q. hay = needle @ q)"
  by (induction hay needle rule: starts_with.induct) auto

lemma str_includes_iff: "str_includes hay needle \<longleftrightarrow> (\<exists>p q. hay = p @ needle @ q)"
proof (induction hay)
  case Nil
  show ?case by auto
next
  case (Cons h hs)
  show ?case
  proof
    assume "str_includes (h # hs) needle"
    then consider "starts_with (h # hs) needle" | "str_includes hs needle" by auto
    then show "\<exists>p q. h # hs = p @ needle @ q"
    proof cases
      case 1
      then obtain q where "h # hs = needle @ q" by (auto simp: starts_with_iff)
      then have "h # hs = [] @ needle @ q" by simp
      then show ?thesis by blast
    next
      case 2
      then obtain p q where "hs = p @ needle @ q" using Cons.IH by blast
      then have "h # hs = (h # p) @ needle @ q" by simp
      then show ?thesis by blast
    qed
  next
    assume "\<exists>p q. h # hs = p @ needle @ q"
    then obtain p q where pq: "h # hs = p @ needle @ q" by blast
    show "str_includes (h # hs) needle"
    proof (cases p)
      case Nil
      with pq have "starts_with (h # hs) needle" by (auto simp: starts_with_iff)
      then show ?thesis by simp
    next
      case (Cons a p')
      with pq have "hs = p' @ needle @ q" by simp
      then have "str_includes hs needle" using Cons.IH by blast
      then show ?thesis by simp
    qed
  qed
qed

lemma trim_inside: "\<exists>p q. x = p @ trim x @ q"
proof -
  let ?y = "dropWhile is_space x"
  have a: "x = takeWhile is_space x @ ?y" by simp
  have "trim x @ rev (takeWhile is_space (rev ?y))
          = rev (takeWhile is_space (rev ?y) @ dropWhile is_space (rev ?y))"
    by (simp only: trim_def rev_append)
  also have "\<dots> = ?y"
    by (simp only: takeWhile_dropWhile_id rev_rev_ident)
  finally have b: "?y = trim x @ rev (takeWhile is_space (rev ?y))"
    by simp
  from a b have "x = takeWhile is_space x @ trim x @ rev (takeWhile is_space (rev ?y))"
    by simp
  then show ?thesis by blast
qed

lemma str_includes_trim: "str_includes x (trim x)"
  using trim_inside [of x] by (simp add: str_includes_iff)

lemma obj_get_key: "obj_get r k = Some v \<Longrightarrow> k \<in> set (obj_keys r)"
  by (auto simp: obj_keys_def obj_get_def dest: map_of_SomeD intro: rev_image_eqI)

lemma field_value_listed:
  assumes "obj_get r k = Some v" "v \<noteq> []"
    and "k \<noteq> ''id''" "k \<noteq> ''last_updated_at''" "k \<noteq> ''estimated_delivery''"
      "k \<noteq> ''checkpoint_date''"
  shows "v \<in> set (allFieldValues pf r)"
proof (cases "k \<in> set named_fields")
  case True
  with assms(3-6) have "k \<in> {''tracking_number'', ''order_id'', ''po_number'', ''from_company'',
      ''recipient_name'', ''destination_city'', ''destination_state'', ''slug'',
      ''tag'', ''title'', ''checkpoint_message'', ''checkpoint_location''}"
    by (simp add: named_fields_def)
  moreover have "fld r k = v" using assms(1) by (simp add: fld_def)
  ultimately show ?thesis
    by (auto simp: allFieldValues_def)
next
  case False
  have f: "fld r k = v" using assms(1) by (simp add: fld_def)
  have "k \<in> set (obj_keys r)" using assms(1) by (rule obj_get_key)
  with False assms(2,3) f have
    "v \<in> set (concat (map (\<lambda>key. if key \<noteq> ''id'' \<and> key \<notin> set named_fields
                               then (if fld r key \<noteq> [] then [fld r key] else [])
                               else [])
                   (obj_keys r)))"
    by (auto intro!: bexI [of _ k])
  then show ?thesis
    by (simp add: allFieldValues_def)
qed

lemma search_finds_value:
  assumes "r \<in> set trks" and "v \<in> set (allFieldValues pf r)"
    and "toLowerCase s = toLowerCase v"
  shows "r \<in> set (filterTrackings pf trks s [])"
proof (cases "trim s = []")
  case True
  with assms(1) show ?thesis by (simp add: filterTrackings_def)
next
  case False
  then have "s \<noteq> []" by (auto simp: trim_def)
  with assms(3) have "v \<noteq> []"
    by (auto simp: toLowerCase_def)
  with assms(2) have m: "toLowerCase v \<in> set (searchableFields pf r)"
    by (simp add: searchableFields_def)
  have "str_includes (toLowerCase v) (trim (toLowerCase s))"
    using str_includes_trim [of "toLowerCase v"] assms(3) by simp
  with m have "list_ex (\<lambda>field. str_includes field (trim (toLowerCase s)))
                 (searchableFields pf r)"
    by (auto simp: list_ex_iff)
  with False assms(1) show ?thesis
    by (simp add: filterTrackings_def Let_def)
qed

lemma date_rendering_listed:
  assumes "k \<in> {''last_updated_at'', ''estimated_delivery'', ''checkpoint_date''}"
  shows "formatDate pf (obj_get r k) \<in> set (allFieldValues pf r)"
  using assms by (auto simp: allFieldValues_def)

lemma formatDate_unchanged:
  assumes "trim v \<noteq> []" and "dateOnlyMatch (trim v) = None"
    and "date_parse pf (trim v) = None"
  shows "formatDate pf (Some v) = v"
proof -
  from assms(1) have "v \<noteq> []" by (auto simp: trim_def)
  with assms show ?thesis by (simp add: formatDate_def Let_def)
qed

lemma base_id:
  "obj_get (baseTracking pf row i) ''id''
     = Some (or_else (fld row ''order_number'')
               (or_else (fld row ''po_number'') (''tracking-'' @ show_nat i)))"
  by (simp add: baseTracking_def obj_get_def Let_def)

lemma base_order_id:
  "obj_get (baseTracking pf row i) ''order_id'' = Some (fld row ''order_number'')"
  by (simp add: baseTracking_def obj_get_def Let_def)

lemma base_po_number:
  "obj_get (baseTracking pf row i) ''po_number'' = Some (fld row ''po_number'')"
  by (simp add: baseTracking_def obj_get_def Let_def)

lemma reconciled_id_is_searched:
  assumes "r \<in> set (trackings pf ordersData additionalData)"
    and "obj_get r ''id'' = Some v"
    and "fld r ''order_id'' \<noteq> [] \<or> fld r ''po_number'' \<noteq> []"
  shows "v \<in> set (allFieldValues pf r)"
proof -
  from assms(1) obtain i where r: "r = build_tracking pf additionalData (i, ordersData ! i)"
    by (auto simp: in_trackings)
  let ?row = "ordersData ! i"
  have o: "fld r ''order_id'' = fld ?row ''order_number''"
    by (simp add: r fld_def build_tracking_def obj_get_merge_additional base_order_id)
  have p: "fld r ''po_number'' = fld ?row ''po_number''"
    by (simp add: r fld_def build_tracking_def obj_get_merge_additional base_po_number)
  have "obj_get r ''id'' = Some (or_else (fld ?row ''order_number'')
               (or_else (fld ?row ''po_number'') (''tracking-'' @ show_nat i)))"
    by (simp add: r build_tracking_def obj_get_merge_additional base_id)
  with assms(2) have v: "v = or_else (fld r ''order_id'')
               (or_else (fld r ''po_number'') (''tracking-'' @ show_nat i))"
    by (simp add: o p)
  with assms(3) have "v = fld r ''order_id'' \<or> v = fld r ''po_number''"
    by (auto simp: or_else_def)
  then show ?thesis
    by (auto simp: allFieldValues_def)
qed

text \<open>
  Claim C6, amended. Take a record of the set and a field of it whose value is not
  empty; the status set is empty and the search text may differ from the text searched
  for in letter case.
  \<^item> A field other than \<^verbatim>\<open>id\<close> and the three date fields \<^verbatim>\<open>last_updated_at\<close>,
    \<^verbatim>\<open>estimated_delivery\<close> and \<^verbatim>\<open>checkpoint_date\<close>: searching for its value returns
    a result that contains the record.
  \<^item> A date field: searching for its rendering by \<open>formatDate\<close> returns a result that
    contains the record. When the value is not blank, is not a bare date and is
    rejected by the date parser, the rendering is the value itself, so searching for
    the value does.
  \<^item> The field \<^verbatim>\<open>id\<close> of a reconciled record that has an order number or a PO number:
    searching for its value returns a result that contains the record.
\<close>

theorem search_round_trip:
  assumes "r \<in> set trks"
    and "obj_get r k = Some v" and "v \<noteq> []"
  shows
    "(k \<notin> {''id'', ''last_updated_at'', ''estimated_delivery'', ''checkpoint_date''}
        \<and> toLowerCase s = toLowerCase v
      \<longrightarrow> r \<in> set (filterTrackings pf trks s []))
     \<and> (k \<in> {''last_updated_at'', ''estimated_delivery'', ''checkpoint_date''}
        \<and> toLowerCase s = toLowerCase (formatDate pf (Some v))
      \<longrightarrow> r \<in> set (filterTrackings pf trks s []))
     \<and> (k \<in> {''last_updated_at'', ''estimated_delivery'', ''checkpoint_date''}
        \<and> trim v \<noteq> [] \<and> dateOnlyMatch (trim v) = None \<and> date_parse pf (trim v) = None
        \<and> toLowerCase s = toLowerCase v
      \<longrightarrow> formatDate pf (Some v) = v \<and> r \<in> set (filterTrackings pf trks s []))
     \<and> (k = ''id'' \<and> trks = trackings pf ordersData additionalData
        \<and> (fld r ''order_id'' \<noteq> [] \<or> fld r ''po_number'' \<noteq> [])
        \<and> toLowerCase s = toLowerCase v
      \<longrightarrow> r \<in> set (filterTrackings pf trks s []))"
proof -
  have stored: "r \<in> set (filterTrackings pf trks s [])"
    if "k \<notin> {''id'', ''last_updated_at'', ''estimated_delivery'', ''checkpoint_date''}"
      and "toLowerCase s = toLowerCase v"
  proof -
    have "v \<in> set (allFieldValues pf r)"
      using assms(2,3) that(1) by (auto intro: field_value_listed)
    with assms(1) that(2) show ?thesis
      by (blast intro: search_finds_value)
  qed
  have rendered: "r \<in> set (filterTrackings pf trks s [])"
    if "k \<in> {''last_updated_at'', ''estimated_delivery'', ''checkpoint_date''}"
      and "toLowerCase s = toLowerCase (formatDate pf (Some v))"
  proof -
    have "formatDate pf (obj_get r k) \<in> set (allFieldValues pf r)"
      using that(1) by (rule date_rendering_listed)
    then have "formatDate pf (Some v) \<in> set (allFieldValues pf r)"
      by (simp add: assms(2))
    with assms(1) that(2) show ?thesis
      by (blast intro: search_finds_value)
  qed
  have unchanged: "formatDate pf (Some v) = v \<and> r \<in> set (filterTrackings pf trks s [])"
    if "k \<in> {''last_updated_at'', ''estimated_delivery'', ''checkpoint_date''}"
      and "trim v \<noteq> []" and "dateOnlyMatch (trim v) = None"
      and "date_parse pf (trim v) = None" and "toLowerCase s = toLowerCase v"
  proof -
    have u: "formatDate pf (Some v) = v"
      using that(2,3,4) by (rule formatDate_unchanged)
    with rendered [OF that(1)] that(5) show ?thesis
      by simp
  qed
  have ident: "r \<in> set (filterTrackings pf trks s [])"
    if "k = ''id''" and "trks = trackings pf ordersData additionalData"
      and "fld r ''order_id'' \<noteq> [] \<or> fld r ''po_number'' \<noteq> []"
      and "toLowerCase s = toLowerCase v"
  proof -
    have "v \<in> set (allFieldValues pf r)"
      using assms(1,2) that(1,2,3)
        reconciled_id_is_searched [of r pf ordersData additionalData v]
      by blast
    with assms(1) that(4) show ?thesis
      by (blast intro: search_finds_value)
  qed
  have c1: "k \<notin> {''id'', ''last_updated_at'', ''estimated_delivery'', ''checkpoint_date''}
        \<and> toLowerCase s = toLowerCase v
      \<longrightarrow> r \<in> set (filterTrackings pf trks s [])"
    by (intro impI, elim conjE, rule stored)
  have c2: "k \<in> {''last_updated_at'', ''estimated_delivery'', ''checkpoint_date''}
        \<and> toLowerCase s = toLowerCase (formatDate pf (Some v))
      \<longrightarrow> r \<in> set (filterTrackings pf trks s [])"
    by (intro impI, elim conjE, rule rendered)
  have c3: "k \<in> {''last_updated_at'', ''estimated_delivery'', ''checkpoint_date''}
        \<and> trim v \<noteq> [] \<and> dateOnlyMatch (trim v) = None \<and> date_parse pf (trim v) = None
        \<and> toLowerCase s = toLowerCase v
      \<longrightarrow> formatDate pf (Some v) = v \<and> r \<in> set (filterTrackings pf trks s [])"
    by (intro impI, elim conjE, rule unchanged)
  have c4: "k = ''id'' \<and> trks = trackings pf ordersData additionalData
        \<and> (fld r ''order_id'' \<noteq> [] \<or> fld r ''po_number'' \<noteq> [])
        \<and> toLowerCase s = toLowerCase v
      \<longrightarrow> r \<in> set (filterTrackings pf trks s [])"
    by (intro impI, elim conjE, rule ident)
  show ?thesis
    by (rule conjI [OF c1 conjI [OF c2 conjI [OF c3 c4]]])
qed

theorem search_round_trip_witness:
  "(hd (trackings example_platform example_rows example_additional)
      \<in> set (trackings example_platform example_rows example_additional)
    \<and> obj_get (hd (trackings example_platform example_rows example_additional)) ''notes''
        = Some ''by order''
    \<and> ''by order'' \<noteq> []
    \<and> ''notes'' \<notin> {''id'', ''last_updated_at'', ''estimated_delivery'', ''checkpoint_date''}
    \<and> toLowerCase ''By ORDER'' = toLowerCase ''by order''
    \<and> hd (trackings example_platform example_rows example_additional)
        \<in> set (filterTrackings example_platform
                 (trackings example_platform example_rows example_additional) ''By ORDER'' []))
   \<and> (example_dated_record \<in> set (trackings example_platform example_dated [])
    \<and> obj_get example_dated_record ''estimated_delivery'' = Some ''2025-11-13''
    \<and> ''2025-11-13'' \<noteq> []
    \<and> ''estimated_delivery'' \<in> {''last_updated_at'', ''estimated_delivery'', ''checkpoint_date''}
    \<and> toLowerCase ''NOV 13, 2025''
        = toLowerCase (formatDate example_platform (Some ''2025-11-13''))
    \<and> example_dated_record
        \<in> set (filterTrackings example_platform (trackings example_platform example_dated [])
                 ''NOV 13, 2025'' []))
   \<and> (example_shipment_records ! 1 \<in> set example_shipment_records
    \<and> obj_get (example_shipment_records ! 1) ''last_updated_at'' = Some ''not-a-date''
    \<and> ''not-a-date'' \<noteq> []
    \<and> ''last_updated_at'' \<in> {''last_updated_at'', ''estimated_delivery'', ''checkpoint_date''}
    \<and> trim ''not-a-date'' \<noteq> [] \<and> dateOnlyMatch (trim ''not-a-date'') = None
    \<and> date_parse example_platform (trim ''not-a-date'') = None
    \<and> toLowerCase ''Not-A-Date'' = toLowerCase ''not-a-date''
    \<and> formatDate example_platform (Some ''not-a-date'') = ''not-a-date''
    \<and> example_shipment_records ! 1
        \<in> set (filterTrackings example_platform example_shipment_records ''Not-A-Date'' []))
   \<and> (obj_get (hd (trackings example_platform example_rows example_additional)) ''id''
        = Some ''SO-7''
    \<and> ''SO-7'' \<noteq> []
    \<and> fld (hd (trackings example_platform example_rows example_additional)) ''order_id''
        = ''SO-7''
    \<and> toLowerCase ''so-7'' = toLowerCase ''SO-7''
    \<and> hd (trackings example_platform example_rows example_additional)
        \<in> set (filterTrackings example_platform
                 (trackings example_platform example_rows example_additional) ''so-7'' []))"
proof -
  have m1: "hd (trackings example_platform example_rows example_additional)
      \<in> set (trackings example_platform example_rows example_additional)"
    by code_simp
  have g1: "obj_get (hd (trackings example_platform example_rows example_additional)) ''notes''
        = Some ''by order''"
    by code_simp
  have n1: "''by order'' \<noteq> []"
    by simp
  have k1: "''notes'' \<notin> {''id'', ''last_updated_at'', ''estimated_delivery'', ''checkpoint_date''}"
    by simp
  have l1: "toLowerCase ''By ORDER'' = toLowerCase ''by order''"
    by code_simp
  have r1: "hd (trackings example_platform example_rows example_additional)
        \<in> set (filterTrackings example_platform
                 (trackings example_platform example_rows example_additional) ''By ORDER'' [])"
    using search_round_trip [OF m1 g1 n1, where s = "''By ORDER''" and pf = example_platform]
      k1 l1 by (simp only: simp_thms)
  have m2: "example_dated_record \<in> set (trackings example_platform example_dated [])"
    by (simp add: example_dated_trackings)
  have g2: "obj_get example_dated_record ''estimated_delivery'' = Some ''2025-11-13''"
    by (simp add: example_dated_record_def obj_get_def)
  have n2: "''2025-11-13'' \<noteq> []"
    by simp
  have k2: "''estimated_delivery'' \<in> {''last_updated_at'', ''estimated_delivery'', ''checkpoint_date''}"
    by simp
  have u2: "toLowerCase ''NOV 13, 2025'' = toLowerCase ''Nov 13, 2025''"
    by code_simp
  have l2: "toLowerCase ''NOV 13, 2025''
        = toLowerCase (formatDate example_platform (Some ''2025-11-13''))"
    by (simp only: example_format u2)
  have r2: "example_dated_record
        \<in> set (filterTrackings example_platform (trackings example_platform example_dated [])
                 ''NOV 13, 2025'' [])"
    using search_round_trip [OF m2 g2 n2, where s = "''NOV 13, 2025''" and pf = example_platform]
      k2 l2 by (simp only: simp_thms)
  have m3: "example_shipment_records ! 1 \<in> set example_shipment_records"
    by code_simp
  have g3: "obj_get (example_shipment_records ! 1) ''last_updated_at'' = Some ''not-a-date''"
    by code_simp
  have n3: "''not-a-date'' \<noteq> []"
    by simp
  have k3: "''last_updated_at'' \<in> {''last_updated_at'', ''estimated_delivery'', ''checkpoint_date''}"
    by simp
  have p3: "trim ''not-a-date'' \<noteq> [] \<and> dateOnlyMatch (trim ''not-a-date'') = None
    \<and> date_parse example_platform (trim ''not-a-date'') = None"
    by code_simp
  have l3: "toLowerCase ''Not-A-Date'' = toLowerCase ''not-a-date''"
    by code_simp
  have r3: "formatDate example_platform (Some ''not-a-date'') = ''not-a-date''
    \<and> example_shipment_records ! 1
        \<in> set (filterTrackings example_platform example_shipment_records ''Not-A-Date'' [])"
    using search_round_trip [OF m3 g3 n3, where s = "''Not-A-Date''" and pf = example_platform]
      k3 p3 l3 by (simp only: simp_thms)
  have g4: "obj_get (hd (trackings example_platform example_rows example_additional)) ''id''
        = Some ''SO-7''"
    by code_simp
  have n4: "''SO-7'' \<noteq> []"
    by simp
  have f4: "fld (hd (trackings example_platform example_rows example_additional)) ''order_id''
        = ''SO-7''"
    by code_simp
  then have o4: "fld (hd (trackings example_platform example_rows example_additional)) ''order_id''
          \<noteq> []
        \<or> fld (hd (trackings example_platform example_rows example_additional)) ''po_number''
            \<noteq> []"
    by simp
  have l4: "toLowerCase ''so-7'' = toLowerCase ''SO-7''"
    by code_simp
  have r4: "hd (trackings example_platform example_rows example_additional)
        \<in> set (filterTrackings example_platform
                 (trackings example_platform example_rows example_additional) ''so-7'' [])"
    using search_round_trip [OF m1 g4 n4, where s = "''so-7''" and pf = example_platform
        and ordersData = example_rows and additionalData = example_additional]
      o4 l4 by (simp only: simp_thms)
  from m1 g1 n1 k1 l1 r1 m2 g2 n2 k2 l2 r2 m3 g3 n3 k3 p3 l3 r3 g4 n4 f4 l4 r4
  show ?thesis
    by (simp only: simp_thms)
qed

end
